theory Spec2Isabelle
  imports Main "HOL-Library.Char_ord" "HOL-Library.List_Lexorder"
begin

section \<open>JavaScript strings and numbers\<close>

text \<open>
  A JavaScript string is modelled as a \<^typ>\<open>string\<close>, one \<^typ>\<open>char\<close> per code unit;
  the model covers the code units below 256 (Latin-1). \<open>length\<close>, \<open>substring\<close> and
  \<open>split\<close> count code units, as \<open>length\<close>, \<open>take\<close> and \<open>takeWhile\<close> do here.
\<close>

text \<open>White space as \<open>String.prototype.trim\<close> and the regular expression class \<open>\s\<close>
  see it: TAB, LF, VT, FF, CR, SP and NBSP (the others lie beyond Latin-1).\<close>

definition isWhiteSpace :: "char \<Rightarrow> bool" where
  "isWhiteSpace c =
     (c = CHR 0x09 \<or> c = CHR 0x0A \<or> c = CHR 0x0B \<or> c = CHR 0x0C \<or> c = CHR 0x0D \<or>
      c = CHR 0x20 \<or> c = CHR 0xA0)"

definition trim :: "string \<Rightarrow> string" where
  "trim s = rev (dropWhile isWhiteSpace (rev (dropWhile isWhiteSpace s)))"

definition isDigit :: "char \<Rightarrow> bool" where
  "isDigit c = (c \<in> set ''0123456789'')"

definition isLower :: "char \<Rightarrow> bool" where
  "isLower c = (c \<in> set ''abcdefghijklmnopqrstuvwxyz'')"

definition isUpper :: "char \<Rightarrow> bool" where
  "isUpper c = (c \<in> set ''ABCDEFGHIJKLMNOPQRSTUVWXYZ'')"

text \<open>The class \<open>\w\<close> of a regular expression: \<open>[A-Za-z0-9_]\<close>.\<close>

definition isWordChar :: "char \<Rightarrow> bool" where
  "isWordChar c = (isLower c \<or> isUpper c \<or> isDigit c \<or> c = CHR ''_'')"

text \<open>The upper-case letters of Latin-1 that have a lower-case partner in Latin-1, and
  their partners, position by position.\<close>

definition upperLetters :: "string" where
  "upperLetters = ''ABCDEFGHIJKLMNOPQRSTUVWXYZ'' @
     [CHR 0xC0, CHR 0xC1, CHR 0xC2, CHR 0xC3, CHR 0xC4, CHR 0xC5, CHR 0xC6, CHR 0xC7,
      CHR 0xC8, CHR 0xC9, CHR 0xCA, CHR 0xCB, CHR 0xCC, CHR 0xCD, CHR 0xCE, CHR 0xCF,
      CHR 0xD0, CHR 0xD1, CHR 0xD2, CHR 0xD3, CHR 0xD4, CHR 0xD5, CHR 0xD6,
      CHR 0xD8, CHR 0xD9, CHR 0xDA, CHR 0xDB, CHR 0xDC, CHR 0xDD, CHR 0xDE]"

definition lowerLetters :: "string" where
  "lowerLetters = ''abcdefghijklmnopqrstuvwxyz'' @
     [CHR 0xE0, CHR 0xE1, CHR 0xE2, CHR 0xE3, CHR 0xE4, CHR 0xE5, CHR 0xE6, CHR 0xE7,
      CHR 0xE8, CHR 0xE9, CHR 0xEA, CHR 0xEB, CHR 0xEC, CHR 0xED, CHR 0xEE, CHR 0xEF,
      CHR 0xF0, CHR 0xF1, CHR 0xF2, CHR 0xF3, CHR 0xF4, CHR 0xF5, CHR 0xF6,
      CHR 0xF8, CHR 0xF9, CHR 0xFA, CHR 0xFB, CHR 0xFC, CHR 0xFD, CHR 0xFE]"

definition toLowerChar :: "char \<Rightarrow> char" where
  "toLowerChar c = (case map_of (zip upperLetters lowerLetters) c of Some l \<Rightarrow> l | None \<Rightarrow> c)"

definition toUpperChar :: "char \<Rightarrow> char" where
  "toUpperChar c = (case map_of (zip lowerLetters upperLetters) c of Some u \<Rightarrow> u | None \<Rightarrow> c)"

definition toLowerCase :: "string \<Rightarrow> string" where
  "toLowerCase s = map toLowerChar s"

definition endsWith :: "string \<Rightarrow> string \<Rightarrow> bool" where
  "endsWith s suffix = (length suffix \<le> length s \<and> drop (length s - length suffix) s = suffix)"

text \<open>A number printed by string concatenation (\<open>'Post ' + n\<close>): its decimal digits.\<close>

fun show_nat :: "nat \<Rightarrow> string" where
  "show_nat n =
     (if n < 10 then [''0123456789'' ! n]
      else show_nat (n div 10) @ [''0123456789'' ! (n mod 10)])"

text \<open>\<open>s.replace(pat, rep)\<close> with a string pattern: the first occurrence only.\<close>

fun replaceFirst :: "string \<Rightarrow> string \<Rightarrow> string \<Rightarrow> string" where
  "replaceFirst pat rep [] = (if pat = [] then rep else [])"
| "replaceFirst pat rep (c # cs) =
     (if take (length pat) (c # cs) = pat then rep @ drop (length pat) (c # cs)
      else c # replaceFirst pat rep cs)"

text \<open>A JavaScript number is a double. The numbers that this program computes come from
  \<open>parseInt\<close>, so each of them is NaN, an integer that a double holds (\<open>Num\<close>), or one of
  the infinities, which a run of digits beyond the range of a double gives. Minus zero
  is \<open>Num 0\<close>: the program only tests a number for truth and binds it to a statement,
  and both treat the two zeros alike.\<close>

datatype jsnum = NaN | Num int | Infinity | MinusInfinity

text \<open>The truth value of \<open>id\<close> of type \<open>number | null\<close> in \<open>if (id)\<close>: null, NaN and 0
  are false.\<close>

fun truthyId :: "jsnum option \<Rightarrow> bool" where
  "truthyId None = False"
| "truthyId (Some NaN) = False"
| "truthyId (Some (Num n)) = (n \<noteq> 0)"
| "truthyId (Some Infinity) = True"
| "truthyId (Some MinusInfinity) = True"

text \<open>The number of binary digits of a positive integer.\<close>

function bitLength :: "int \<Rightarrow> nat" where
  "bitLength n = (if n \<le> 0 then 0 else Suc (bitLength (n div 2)))"
  by pat_completeness auto
termination
  by (relation "measure nat") auto

text \<open>The double nearest to an integer that is not negative: a number below \<open>2^53\<close> is
  held as it is; a larger one keeps its 53 leading binary digits, rounded to the
  nearest, a tie to the even one; \<open>None\<close> when the rounded number is \<open>2^1024\<close> or more,
  beyond the largest double, where the result is an infinity.\<close>

definition roundToDouble :: "int \<Rightarrow> int option" where
  "roundToDouble n =
     (if n < 2 ^ 53 then Some n
      else
        (let e = bitLength n - 53;
             q = n div 2 ^ e;
             r = n mod 2 ^ e;
             q' = (if 2 ^ e < 2 * r \<or> (2 * r = 2 ^ e \<and> odd q) then q + 1 else q);
             m = q' * 2 ^ e
         in if m < 2 ^ 1024 then Some m else None))"

definition hexDigits :: "(char \<times> nat) list" where
  "hexDigits = zip ''0123456789abcdef'' [0..<16] @ zip ''ABCDEF'' [10..<16]"

definition digitValue :: "nat \<Rightarrow> char \<Rightarrow> nat option" where
  "digitValue radix c =
     (case map_of hexDigits c of
        None \<Rightarrow> None
      | Some v \<Rightarrow> if v < radix then Some v else None)"

text \<open>The value of the longest prefix of digits in the radix, read left to right;
  \<open>None\<close> when that prefix is empty.\<close>

fun digitsValue :: "nat \<Rightarrow> int option \<Rightarrow> string \<Rightarrow> int option" where
  "digitsValue radix acc [] = acc"
| "digitsValue radix acc (c # cs) =
     (case digitValue radix c of
        None \<Rightarrow> acc
      | Some v \<Rightarrow>
          digitsValue radix (Some ((case acc of None \<Rightarrow> 0 | Some a \<Rightarrow> a) * int radix + int v)) cs)"

text \<open>\<open>parseInt(s)\<close> with no radix argument: leading white space is skipped, a sign is
  read, a prefix \<open>0x\<close> or \<open>0X\<close> selects radix 16, the digits are read up to the first
  character that is not one, and no digit at all gives NaN. The result is a double: the
  integer that the digits denote, rounded by \<open>roundToDouble\<close>. So \<open>9007199254740993\<close>,
  which is \<open>2^53 + 1\<close>, parses to \<open>9007199254740992\<close>, and the handlers look up that row.\<close>

definition parseInt :: "string \<Rightarrow> jsnum" where
  "parseInt s =
     (let s1 = dropWhile isWhiteSpace s;
          neg = (take 1 s1 = ''-'');
          s2 = (if take 1 s1 = ''-'' \<or> take 1 s1 = ''+'' then drop 1 s1 else s1);
          hex = (take 2 s2 = ''0x'' \<or> take 2 s2 = ''0X'');
          s3 = (if hex then drop 2 s2 else s2)
      in case digitsValue (if hex then 16 else 10) None s3 of
           None \<Rightarrow> NaN
         | Some v \<Rightarrow>
             (case roundToDouble v of
                None \<Rightarrow> if neg then MinusInfinity else Infinity
              | Some m \<Rightarrow> Num (if neg then - m else m)))"

section \<open>Derived fields of the simple-post workflow\<close>

text \<open>\<open>postText.split(/[.!?]/)[0].substring(0, 50).trim()\<close>, the ellipsis and the
  fallback (index.ts, lines 1022 to 1028); \<open>i\<close> is the loop index, \<open>postText\<close> the
  trimmed entry.\<close>

definition isTerminator :: "char \<Rightarrow> bool" where
  "isTerminator c = (c = CHR ''.'' \<or> c = CHR ''!'' \<or> c = CHR ''?'')"

definition postTitle :: "nat \<Rightarrow> string \<Rightarrow> string" where
  "postTitle i postText =
     (let title = trim (take 50 (takeWhile (\<lambda>c. \<not> isTerminator c) postText));
          title = (if length title = 50 \<and> \<not> endsWith title ''...'' then title @ ''...'' else title)
      in if title = [] then ''Post '' @ show_nat (i + 1) else title)"

text \<open>The four replacements that make the slug of a title (lines 1031 to 1035).
  \<open>collapseRuns p\<close> is \<open>replace(/p+/g, '-')\<close>: every maximal run of characters of the
  class \<open>p\<close> becomes one hyphen.\<close>

fun collapseRuns :: "(char \<Rightarrow> bool) \<Rightarrow> string \<Rightarrow> string" where
  "collapseRuns p [] = []"
| "collapseRuns p [c] = (if p c then ''-'' else [c])"
| "collapseRuns p (c # d # cs) =
     (if p c then (if p d then collapseRuns p (d # cs) else CHR ''-'' # collapseRuns p (d # cs))
      else c # collapseRuns p (d # cs))"

definition trimHyphen :: "string \<Rightarrow> string" where
  "trimHyphen s =
     rev (dropWhile (\<lambda>d. d = CHR ''-'') (rev (dropWhile (\<lambda>d. d = CHR ''-'') s)))"

definition postSlug :: "nat \<Rightarrow> nat \<Rightarrow> string \<Rightarrow> string" where
  "postSlug now i title =
     trimHyphen (collapseRuns (\<lambda>c. c = CHR ''-'') (collapseRuns isWhiteSpace
       (filter (\<lambda>c. isWordChar c \<or> isWhiteSpace c \<or> c = CHR ''-'') (toLowerCase title))))
     @ ''-'' @ show_nat now @ ''-'' @ show_nat i"

text \<open>The excerpt (lines 1038 to 1040).\<close>

definition postExcerpt :: "string \<Rightarrow> string" where
  "postExcerpt postText =
     (if length postText > 150 then trim (take 150 postText) @ ''...'' else postText)"

text \<open>The name and slug of a blog created from a host name (lines 948, 949 and 955).
  \<open>stripExt\<close> is \<open>replace(/\.[^/.]+$/, '')\<close>: the leftmost dot that is followed, up to
  the end, by one or more characters other than a slash and a dot.\<close>

fun stripExt :: "string \<Rightarrow> string" where
  "stripExt [] = []"
| "stripExt (c # cs) =
     (if c = CHR ''.'' \<and> cs \<noteq> [] \<and> list_all (\<lambda>d. d \<noteq> CHR ''/'' \<and> d \<noteq> CHR ''.'') cs then []
      else c # stripExt cs)"

definition blogName :: "string \<Rightarrow> string" where
  "blogName hostname = stripExt (replaceFirst ''www.'' [] hostname)"

definition blogSlug :: "string \<Rightarrow> string" where
  "blogSlug hostname =
     map (\<lambda>c. if isLower c \<or> isDigit c then c else CHR ''-'') (toLowerCase (blogName hostname))"

definition capitalize :: "string \<Rightarrow> string" where
  "capitalize s = map toUpperChar (take 1 s) @ drop 1 s"

section \<open>The tables (schema.sql)\<close>

text \<open>One record per table, one field per column, a nullable column as an option. The
  selectors of all records share one name space, so each field carries the name of its
  table. Every \<open>INSERT\<close> and \<open>UPDATE\<close> of index.ts binds a number to \<open>IsPublished\<close>,
  \<open>Views\<close> and \<open>IsApproved\<close>, which therefore are plain integers here.\<close>

record blog =
  blog_BlogId :: int
  blog_Name :: string
  blog_Slug :: string
  blog_Description :: "string option"
  blog_Url :: "string option"
  blog_CreatedAt :: string

record author =
  author_AuthorId :: int
  author_BlogId :: int
  author_Name :: string
  author_Email :: "string option"
  author_ProfileUrl :: "string option"
  author_Bio :: "string option"
  author_CreatedAt :: string

record category =
  category_CategoryId :: int
  category_BlogId :: int
  category_Name :: string
  category_Slug :: "string option"

record post =
  post_PostId :: int
  post_BlogId :: int
  post_AuthorId :: "int option"
  post_CategoryId :: "int option"
  post_Title :: string
  post_Slug :: string
  post_Content :: "string option"
  post_Excerpt :: "string option"
  post_PublishedAt :: "string option"
  post_IsPublished :: int
  post_Views :: int
  post_ExternalId :: "string option"
  post_CreatedAt :: string
  post_UpdatedAt :: "string option"

record tag =
  tag_TagId :: int
  tag_Name :: string

record comment =
  comment_CommentId :: int
  comment_PostId :: int
  comment_AuthorName :: "string option"
  comment_AuthorEmail :: "string option"
  comment_Content :: string
  comment_CreatedAt :: string
  comment_IsApproved :: int
  comment_ExternalId :: "string option"

text \<open>The store: each table as the list of its rows in the order of insertion, which
  is the order of the row ids. A row of \<open>PostTags\<close> is the pair \<open>(PostId, TagId)\<close>. The
  table \<open>Backups\<close> is not touched by index.ts and is left out.\<close>

record db =
  Blogs :: "blog list"
  Authors :: "author list"
  Categories :: "category list"
  Posts :: "post list"
  Tags :: "tag list"
  PostTags :: "(int \<times> int) list"
  Comments :: "comment list"

definition empty_db :: db where
  "empty_db = \<lparr>Blogs = [], Authors = [], Categories = [], Posts = [], Tags = [],
     PostTags = [], Comments = []\<rparr>"

text \<open>An \<open>INTEGER PRIMARY KEY\<close> that the statement leaves out: 1 in an empty table, one
  more than the largest key otherwise. It is \<open>meta.last_row_id\<close> of the insert.\<close>

definition next_rowid :: "int list \<Rightarrow> int" where
  "next_rowid ids = (case ids of [] \<Rightarrow> 1 | x # xs \<Rightarrow> fold max xs x + 1)"

subsection \<open>Reading\<close>

text \<open>\<open>SELECT ... WHERE key = ?\<close> followed by \<open>first()\<close>: the first matching row,
  or null.\<close>

definition select_blog :: "db \<Rightarrow> int \<Rightarrow> blog option" where
  "select_blog d i = find (\<lambda>b. blog_BlogId b = i) (Blogs d)"

definition select_blog_by_url :: "db \<Rightarrow> string \<Rightarrow> blog option" where
  "select_blog_by_url d url = find (\<lambda>b. blog_Url b = Some url) (Blogs d)"

definition select_author :: "db \<Rightarrow> int \<Rightarrow> author option" where
  "select_author d i = find (\<lambda>a. author_AuthorId a = i) (Authors d)"

definition select_author_of_blog :: "db \<Rightarrow> int \<Rightarrow> author option" where
  "select_author_of_blog d b = find (\<lambda>a. author_BlogId a = b) (Authors d)"

definition select_category :: "db \<Rightarrow> int \<Rightarrow> category option" where
  "select_category d i = find (\<lambda>c. category_CategoryId c = i) (Categories d)"

definition select_category_of_blog :: "db \<Rightarrow> int \<Rightarrow> category option" where
  "select_category_of_blog d b = find (\<lambda>c. category_BlogId c = b) (Categories d)"

definition select_post :: "db \<Rightarrow> int \<Rightarrow> post option" where
  "select_post d i = find (\<lambda>p. post_PostId p = i) (Posts d)"

definition select_tag :: "db \<Rightarrow> int \<Rightarrow> tag option" where
  "select_tag d i = find (\<lambda>t. tag_TagId t = i) (Tags d)"

definition select_comment :: "db \<Rightarrow> int \<Rightarrow> comment option" where
  "select_comment d i = find (\<lambda>c. comment_CommentId c = i) (Comments d)"

text \<open>The rows with the columns a \<open>LEFT JOIN\<close> adds: \<open>BlogName\<close> for an author and a
  category; \<open>BlogName\<close>, \<open>AuthorName\<close> and \<open>CategoryName\<close> for a post; \<open>PostCount\<close> for a
  tag; \<open>PostTitle\<close> and \<open>PostSlug\<close> for a comment.\<close>

type_synonym author_row = "author \<times> string option"
type_synonym category_row = "category \<times> string option"
type_synonym post_row = "post \<times> string option \<times> string option \<times> string option"
type_synonym tag_row = "tag \<times> nat"
type_synonym comment_row = "comment \<times> string option \<times> string option"

definition author_row_of :: "db \<Rightarrow> author \<Rightarrow> author_row" where
  "author_row_of d a = (a, map_option blog_Name (select_blog d (author_BlogId a)))"

definition category_row_of :: "db \<Rightarrow> category \<Rightarrow> category_row" where
  "category_row_of d c = (c, map_option blog_Name (select_blog d (category_BlogId c)))"

definition post_row_of :: "db \<Rightarrow> post \<Rightarrow> post_row" where
  "post_row_of d p =
     (p, map_option blog_Name (select_blog d (post_BlogId p)),
      (case post_AuthorId p of None \<Rightarrow> None
       | Some a \<Rightarrow> map_option author_Name (select_author d a)),
      (case post_CategoryId p of None \<Rightarrow> None
       | Some c \<Rightarrow> map_option category_Name (select_category d c)))"

definition tag_row_of :: "db \<Rightarrow> tag \<Rightarrow> tag_row" where
  "tag_row_of d t = (t, length (filter (\<lambda>pt. snd pt = tag_TagId t) (PostTags d)))"

definition comment_row_of :: "db \<Rightarrow> comment \<Rightarrow> comment_row" where
  "comment_row_of d c =
     (c, map_option post_Title (select_post d (comment_PostId c)),
      map_option post_Slug (select_post d (comment_PostId c)))"

text \<open>\<open>SELECT t.TagId, t.Name FROM Tags t JOIN PostTags pt ... WHERE pt.PostId = ?\<close>.\<close>

definition select_tags_of_post :: "db \<Rightarrow> int \<Rightarrow> tag list" where
  "select_tags_of_post d i =
     concat (map (\<lambda>pt. filter (\<lambda>t. tag_TagId t = snd pt) (Tags d))
                 (filter (\<lambda>pt. fst pt = i) (PostTags d)))"

text \<open>\<open>ORDER BY\<close> a text column, which compares the strings code unit by code unit.
  Rows with equal keys stay in the order of the table.\<close>

definition order_asc :: "('a \<Rightarrow> string) \<Rightarrow> 'a list \<Rightarrow> 'a list" where
  "order_asc key rows = sort_key key rows"

definition order_desc :: "('a \<Rightarrow> string) \<Rightarrow> 'a list \<Rightarrow> 'a list" where
  "order_desc key rows = rev (sort_key key (rev rows))"

text \<open>\<open>LIMIT ? OFFSET ?\<close>: a negative limit is no limit, a negative offset is none, and
  a bound value that is no integer (NaN, an infinity) makes the statement fail.\<close>

definition limitOffset :: "jsnum \<Rightarrow> jsnum \<Rightarrow> 'a list \<Rightarrow> 'a list option" where
  "limitOffset lim off rows =
     (case lim of
        Num l \<Rightarrow>
          (case off of
             Num k \<Rightarrow> Some (if l < 0 then drop (nat k) rows else take (nat l) (drop (nat k) rows))
           | _ \<Rightarrow> None)
      | _ \<Rightarrow> None)"

text \<open>\<open>text LIKE pattern\<close>: \<open>%\<close> stands for any run of characters, \<open>_\<close> for any one
  character, and the letters A to Z match their lower-case partners.\<close>

definition asciiLower :: "char \<Rightarrow> char" where
  "asciiLower c = (if isUpper c then toLowerChar c else c)"

fun like :: "string \<Rightarrow> string \<Rightarrow> bool" where
  "like [] s = (s = [])"
| "like (p # ps) [] = (if p = CHR ''%'' then like ps [] else False)"
| "like (p # ps) (c # cs) =
     (if p = CHR ''%'' then like ps (c # cs) \<or> like (p # ps) cs
      else (p = CHR ''_'' \<or> asciiLower p = asciiLower c) \<and> like ps cs)"

definition likeOpt :: "string \<Rightarrow> string option \<Rightarrow> bool" where
  "likeOpt pat v = (case v of None \<Rightarrow> False | Some s \<Rightarrow> like pat s)"

text \<open>\<open>column = ?\<close> with a bound number, the column an integer: NaN and the infinities
  equal nothing.\<close>

fun numEq :: "int \<Rightarrow> jsnum \<Rightarrow> bool" where
  "numEq n (Num m) = (n = m)"
| "numEq n _ = False"

definition numEqOpt :: "int option \<Rightarrow> jsnum \<Rightarrow> bool" where
  "numEqOpt v x = (case v of None \<Rightarrow> False | Some n \<Rightarrow> numEq n x)"

subsection \<open>Writing\<close>

text \<open>A statement that the store refuses makes \<open>run()\<close> throw: the result is \<open>None\<close>
  and the store is left as it was. The constraints are those of schema.sql, which
  switches foreign keys on: \<open>Slug\<close> of a blog and \<open>Name\<close> of a tag are \<open>UNIQUE\<close>; the
  key of \<open>PostTags\<close> is the pair; \<open>BlogId\<close> of an author, a category and a post,
  \<open>PostId\<close> of a comment and both columns of \<open>PostTags\<close> are foreign keys with
  \<open>ON DELETE CASCADE\<close>; \<open>AuthorId\<close> and \<open>CategoryId\<close> of a post are foreign keys with no
  action, so a row they point to cannot be deleted.\<close>

definition insert_blog ::
  "db \<Rightarrow> string \<Rightarrow> string \<Rightarrow> string option \<Rightarrow> string option \<Rightarrow> string \<Rightarrow> (int \<times> db) option" where
  "insert_blog d name slug description url createdAt =
     (if slug \<in> set (map blog_Slug (Blogs d)) then None
      else let rowid = next_rowid (map blog_BlogId (Blogs d)) in
        Some (rowid, d\<lparr>Blogs := Blogs d @
          [\<lparr>blog_BlogId = rowid, blog_Name = name, blog_Slug = slug,
            blog_Description = description, blog_Url = url, blog_CreatedAt = createdAt\<rparr>]\<rparr>))"

definition update_blog ::
  "db \<Rightarrow> int \<Rightarrow> string \<Rightarrow> string \<Rightarrow> string option \<Rightarrow> string option \<Rightarrow> db option" where
  "update_blog d i name slug description url =
     (if (\<exists>b \<in> set (Blogs d). blog_BlogId b = i) \<and>
         (\<exists>b \<in> set (Blogs d). blog_BlogId b \<noteq> i \<and> blog_Slug b = slug) then None
      else Some (d\<lparr>Blogs := map (\<lambda>b. if blog_BlogId b = i
          then b\<lparr>blog_Name := name, blog_Slug := slug, blog_Description := description,
                 blog_Url := url\<rparr>
          else b) (Blogs d)\<rparr>))"

definition refersTo :: "int option \<Rightarrow> int list \<Rightarrow> bool" where
  "refersTo v ids = (case v of None \<Rightarrow> False | Some i \<Rightarrow> i \<in> set ids)"

definition delete_blog :: "db \<Rightarrow> int \<Rightarrow> db option" where
  "delete_blog d i =
     (if \<not> (\<exists>b \<in> set (Blogs d). blog_BlogId b = i) then Some d
      else
        let goneAuthors = map author_AuthorId (filter (\<lambda>a. author_BlogId a = i) (Authors d));
            goneCategories = map category_CategoryId (filter (\<lambda>c. category_BlogId c = i) (Categories d));
            gonePosts = map post_PostId (filter (\<lambda>p. post_BlogId p = i) (Posts d));
            keptPosts = filter (\<lambda>p. post_BlogId p \<noteq> i) (Posts d)
        in if \<exists>p \<in> set keptPosts. refersTo (post_AuthorId p) goneAuthors \<or>
                                    refersTo (post_CategoryId p) goneCategories
           then None
           else Some (d\<lparr>Blogs := filter (\<lambda>b. blog_BlogId b \<noteq> i) (Blogs d),
                        Authors := filter (\<lambda>a. author_BlogId a \<noteq> i) (Authors d),
                        Categories := filter (\<lambda>c. category_BlogId c \<noteq> i) (Categories d),
                        Posts := keptPosts,
                        PostTags := filter (\<lambda>pt. fst pt \<notin> set gonePosts) (PostTags d),
                        Comments := filter (\<lambda>c. comment_PostId c \<notin> set gonePosts) (Comments d)\<rparr>))"

definition insert_author ::
  "db \<Rightarrow> int \<Rightarrow> string \<Rightarrow> string option \<Rightarrow> string option \<Rightarrow> string option \<Rightarrow> string \<Rightarrow> (int \<times> db) option" where
  "insert_author d blogId name email profileUrl bio createdAt =
     (if select_blog d blogId = None then None
      else let rowid = next_rowid (map author_AuthorId (Authors d)) in
        Some (rowid, d\<lparr>Authors := Authors d @
          [\<lparr>author_AuthorId = rowid, author_BlogId = blogId, author_Name = name,
            author_Email = email, author_ProfileUrl = profileUrl, author_Bio = bio,
            author_CreatedAt = createdAt\<rparr>]\<rparr>))"

definition update_author ::
  "db \<Rightarrow> int \<Rightarrow> int \<Rightarrow> string \<Rightarrow> string option \<Rightarrow> string option \<Rightarrow> string option \<Rightarrow> db option" where
  "update_author d i blogId name email profileUrl bio =
     (if (\<exists>a \<in> set (Authors d). author_AuthorId a = i) \<and> select_blog d blogId = None then None
      else Some (d\<lparr>Authors := map (\<lambda>a. if author_AuthorId a = i
          then a\<lparr>author_BlogId := blogId, author_Name := name, author_Email := email,
                 author_ProfileUrl := profileUrl, author_Bio := bio\<rparr>
          else a) (Authors d)\<rparr>))"

definition delete_author :: "db \<Rightarrow> int \<Rightarrow> db option" where
  "delete_author d i =
     (if (\<exists>a \<in> set (Authors d). author_AuthorId a = i) \<and>
         (\<exists>p \<in> set (Posts d). post_AuthorId p = Some i) then None
      else Some (d\<lparr>Authors := filter (\<lambda>a. author_AuthorId a \<noteq> i) (Authors d)\<rparr>))"

definition insert_category :: "db \<Rightarrow> int \<Rightarrow> string \<Rightarrow> string option \<Rightarrow> (int \<times> db) option" where
  "insert_category d blogId name slug =
     (if select_blog d blogId = None then None
      else let rowid = next_rowid (map category_CategoryId (Categories d)) in
        Some (rowid, d\<lparr>Categories := Categories d @
          [\<lparr>category_CategoryId = rowid, category_BlogId = blogId, category_Name = name,
            category_Slug = slug\<rparr>]\<rparr>))"

definition update_category :: "db \<Rightarrow> int \<Rightarrow> int \<Rightarrow> string \<Rightarrow> string option \<Rightarrow> db option" where
  "update_category d i blogId name slug =
     (if (\<exists>c \<in> set (Categories d). category_CategoryId c = i) \<and> select_blog d blogId = None
      then None
      else Some (d\<lparr>Categories := map (\<lambda>c. if category_CategoryId c = i
          then c\<lparr>category_BlogId := blogId, category_Name := name, category_Slug := slug\<rparr>
          else c) (Categories d)\<rparr>))"

definition delete_category :: "db \<Rightarrow> int \<Rightarrow> db option" where
  "delete_category d i =
     (if (\<exists>c \<in> set (Categories d). category_CategoryId c = i) \<and>
         (\<exists>p \<in> set (Posts d). post_CategoryId p = Some i) then None
      else Some (d\<lparr>Categories := filter (\<lambda>c. category_CategoryId c \<noteq> i) (Categories d)\<rparr>))"

text \<open>The foreign keys of a post row: the blog is there, and so are the author and the
  category when the column is not null.\<close>

definition post_refs_ok :: "db \<Rightarrow> int \<Rightarrow> int option \<Rightarrow> int option \<Rightarrow> bool" where
  "post_refs_ok d blogId authorId categoryId =
     (select_blog d blogId \<noteq> None \<and>
      (case authorId of None \<Rightarrow> True | Some a \<Rightarrow> select_author d a \<noteq> None) \<and>
      (case categoryId of None \<Rightarrow> True | Some c \<Rightarrow> select_category d c \<noteq> None))"

definition insert_post :: "db \<Rightarrow> post \<Rightarrow> (int \<times> db) option" where
  "insert_post d row =
     (if \<not> post_refs_ok d (post_BlogId row) (post_AuthorId row) (post_CategoryId row) then None
      else let rowid = next_rowid (map post_PostId (Posts d)) in
        Some (rowid, d\<lparr>Posts := Posts d @ [row\<lparr>post_PostId := rowid\<rparr>]\<rparr>))"

text \<open>\<open>UPDATE Posts SET ... WHERE PostId = ?\<close> sets every column but \<open>PostId\<close> and
  \<open>CreatedAt\<close> from \<open>row\<close>.\<close>

definition update_post :: "db \<Rightarrow> int \<Rightarrow> post \<Rightarrow> db option" where
  "update_post d i row =
     (if (\<exists>p \<in> set (Posts d). post_PostId p = i) \<and>
         \<not> post_refs_ok d (post_BlogId row) (post_AuthorId row) (post_CategoryId row) then None
      else Some (d\<lparr>Posts := map (\<lambda>p. if post_PostId p = i
          then row\<lparr>post_PostId := post_PostId p, post_CreatedAt := post_CreatedAt p\<rparr>
          else p) (Posts d)\<rparr>))"

definition delete_post :: "db \<Rightarrow> int \<Rightarrow> db option" where
  "delete_post d i =
     (if \<not> (\<exists>p \<in> set (Posts d). post_PostId p = i) then Some d
      else Some (d\<lparr>Posts := filter (\<lambda>p. post_PostId p \<noteq> i) (Posts d),
                   PostTags := filter (\<lambda>pt. fst pt \<noteq> i) (PostTags d),
                   Comments := filter (\<lambda>c. comment_PostId c \<noteq> i) (Comments d)\<rparr>))"

definition insert_posttag :: "db \<Rightarrow> int \<Rightarrow> int \<Rightarrow> db option" where
  "insert_posttag d postId tagId =
     (if (postId, tagId) \<in> set (PostTags d) \<or> select_post d postId = None \<or>
         select_tag d tagId = None then None
      else Some (d\<lparr>PostTags := PostTags d @ [(postId, tagId)]\<rparr>))"

definition delete_posttags_of :: "db \<Rightarrow> int \<Rightarrow> db option" where
  "delete_posttags_of d postId = Some (d\<lparr>PostTags := filter (\<lambda>pt. fst pt \<noteq> postId) (PostTags d)\<rparr>)"

definition insert_tag :: "db \<Rightarrow> string \<Rightarrow> (int \<times> db) option" where
  "insert_tag d name =
     (if name \<in> set (map tag_Name (Tags d)) then None
      else let rowid = next_rowid (map tag_TagId (Tags d)) in
        Some (rowid, d\<lparr>Tags := Tags d @ [\<lparr>tag_TagId = rowid, tag_Name = name\<rparr>]\<rparr>))"

definition update_tag :: "db \<Rightarrow> int \<Rightarrow> string \<Rightarrow> db option" where
  "update_tag d i name =
     (if (\<exists>t \<in> set (Tags d). tag_TagId t = i) \<and>
         (\<exists>t \<in> set (Tags d). tag_TagId t \<noteq> i \<and> tag_Name t = name) then None
      else Some (d\<lparr>Tags := map (\<lambda>t. if tag_TagId t = i then t\<lparr>tag_Name := name\<rparr> else t) (Tags d)\<rparr>))"

definition delete_tag :: "db \<Rightarrow> int \<Rightarrow> db option" where
  "delete_tag d i =
     (if \<not> (\<exists>t \<in> set (Tags d). tag_TagId t = i) then Some d
      else Some (d\<lparr>Tags := filter (\<lambda>t. tag_TagId t \<noteq> i) (Tags d),
                   PostTags := filter (\<lambda>pt. snd pt \<noteq> i) (PostTags d)\<rparr>))"

definition insert_comment :: "db \<Rightarrow> comment \<Rightarrow> (int \<times> db) option" where
  "insert_comment d row =
     (if select_post d (comment_PostId row) = None then None
      else let rowid = next_rowid (map comment_CommentId (Comments d)) in
        Some (rowid, d\<lparr>Comments := Comments d @ [row\<lparr>comment_CommentId := rowid\<rparr>]\<rparr>))"

text \<open>\<open>UPDATE Comments SET ... WHERE CommentId = ?\<close> sets every column but \<open>CommentId\<close>
  and \<open>CreatedAt\<close> from \<open>row\<close>.\<close>

definition update_comment :: "db \<Rightarrow> int \<Rightarrow> comment \<Rightarrow> db option" where
  "update_comment d i row =
     (if (\<exists>c \<in> set (Comments d). comment_CommentId c = i) \<and>
         select_post d (comment_PostId row) = None then None
      else Some (d\<lparr>Comments := map (\<lambda>c. if comment_CommentId c = i
          then row\<lparr>comment_CommentId := comment_CommentId c, comment_CreatedAt := comment_CreatedAt c\<rparr>
          else c) (Comments d)\<rparr>))"

definition delete_comment :: "db \<Rightarrow> int \<Rightarrow> db option" where
  "delete_comment d i =
     Some (d\<lparr>Comments := filter (\<lambda>c. comment_CommentId c \<noteq> i) (Comments d)\<rparr>)"

section \<open>Requests and responses\<close>

text \<open>The body of a request after \<open>request.json()\<close>, at the types the handlers cast it
  to (\<open>as Blog\<close>, \<open>as Post & { tags?: number[] }\<close>, ...): one field per property that
  some handler reads, \<open>None\<close> when the property is missing. A \<open>CreatedAt\<close> of the body is
  never read. \<open>postTexts\<close> may be missing, something that is no array, or an array.\<close>

datatype postTexts_field = Absent | NotArray | Arr "string list"

record json_body =
  Name :: "string option"
  Slug :: "string option"
  Description :: "string option"
  Url :: "string option"
  BlogId :: "int option"
  Email :: "string option"
  ProfileUrl :: "string option"
  Bio :: "string option"
  AuthorId :: "int option"
  CategoryId :: "int option"
  Title :: "string option"
  Content :: "string option"
  Excerpt :: "string option"
  PublishedAt :: "string option"
  IsPublished :: "int option"
  Views :: "int option"
  ExternalId :: "string option"
  UpdatedAt :: "string option"
  tags :: "int list option"
  PostId :: "int option"
  AuthorName :: "string option"
  AuthorEmail :: "string option"
  IsApproved :: "int option"
  blogUrl :: "string option"
  postTexts :: postTexts_field

definition empty_body :: json_body where
  "empty_body = \<lparr>Name = None, Slug = None, Description = None, Url = None, BlogId = None,
     Email = None, ProfileUrl = None, Bio = None, AuthorId = None, CategoryId = None,
     Title = None, Content = None, Excerpt = None, PublishedAt = None, IsPublished = None,
     Views = None, ExternalId = None, UpdatedAt = None, tags = None, PostId = None,
     AuthorName = None, AuthorEmail = None, IsApproved = None, blogUrl = None,
     postTexts = Absent\<rparr>"

text \<open>A request: the method, the path and the query of its URL, and its body, \<open>None\<close>
  when \<open>request.json()\<close> throws (the body is empty or is no JSON) and when it gives
  \<open>null\<close>: the handlers read a field of what \<open>request.json()\<close> gives at once, and reading
  a field of \<open>null\<close> throws as well.\<close>

record request =
  meth :: string
  pathname :: string
  searchParams :: "(string \<times> string) list"
  json :: "json_body option"

text \<open>What the platform gives a request: the clock and the URL parser. \<open>iso k\<close> is the
  result of the \<open>k\<close>-th call of \<open>getCurrentTimestamp()\<close> within the request (counted
  from 0), \<open>millis i\<close> is \<open>Date.now()\<close> in round \<open>i\<close> of the loop over \<open>postTexts\<close>, and
  \<open>hostname u\<close> is \<open>new URL(u).hostname\<close>, \<open>None\<close> when the constructor throws.\<close>

record runtime =
  iso :: "nat \<Rightarrow> string"
  millis :: "nat \<Rightarrow> nat"
  hostname :: "string \<Rightarrow> string option"

datatype payload =
    JText string
  | JError string
  | JMessage string
  | JNull
  | JBlog blog
  | JBlogs "blog list"
  | JAuthor author_row
  | JAuthors "author_row list"
  | JCategory category_row
  | JCategories "category_row list"
  | JPost post_row
  | JPosts "post_row list"
  | JPostWithTags post_row "tag list"
  | JTag tag_row
  | JTags "tag_row list"
  | JComment comment_row
  | JComments "comment_row list"
  | JSimple blog author category nat "post_row option list"

record response =
  status :: nat
  payload :: payload

definition createErrorResponse :: "string \<Rightarrow> nat \<Rightarrow> response" where
  "createErrorResponse message st = \<lparr>status = st, payload = JError message\<rparr>"

definition createSuccessResponse :: "payload \<Rightarrow> response" where
  "createSuccessResponse data = \<lparr>status = 200, payload = data\<rparr>"

text \<open>What a handler does: the response it returns, \<open>None\<close> when it throws, and the store
  it leaves.\<close>

type_synonym result = "response option \<times> db"

text \<open>\<open>x || null\<close> on a string and on a number, \<open>x || 0\<close>, and the row that \<open>first()\<close>
  returned, or null, as a payload.\<close>

definition orNull :: "string option \<Rightarrow> string option" where
  "orNull x = (case x of None \<Rightarrow> None | Some s \<Rightarrow> if s = [] then None else Some s)"

definition orNullNum :: "int option \<Rightarrow> int option" where
  "orNullNum x = (case x of None \<Rightarrow> None | Some n \<Rightarrow> if n = 0 then None else Some n)"

definition orZero :: "int option \<Rightarrow> int" where
  "orZero x = (case x of None \<Rightarrow> 0 | Some n \<Rightarrow> n)"

definition orNullRow :: "('a \<Rightarrow> payload) \<Rightarrow> 'a option \<Rightarrow> payload" where
  "orNullRow f x = (case x of None \<Rightarrow> JNull | Some r \<Rightarrow> f r)"

text \<open>The key that a bound \<open>id\<close> equals in \<open>WHERE key = ?\<close>, the key an integer: the
  integer that the number holds; \<open>None\<close> for a number that equals no key (an infinity;
  null and NaN, which no handler binds, as they are not true).\<close>

fun keyOf :: "jsnum option \<Rightarrow> int option" where
  "keyOf (Some (Num n)) = Some n"
| "keyOf _ = None"

text \<open>\<open>SELECT ... WHERE key = ?\<close> with the bound \<open>id\<close>: a bound number that equals no key
  finds no row.\<close>

fun selectWhere :: "int option \<Rightarrow> (int \<Rightarrow> 'a option) \<Rightarrow> 'a option" where
  "selectWhere None sel = None"
| "selectWhere (Some i) sel = sel i"

text \<open>\<open>UPDATE ... WHERE key = ?\<close> and \<open>DELETE ... WHERE key = ?\<close> with the bound \<open>id\<close>: a
  bound number that equals no key changes no row, and the statement succeeds.\<close>

fun writeWhere :: "db \<Rightarrow> int option \<Rightarrow> (int \<Rightarrow> db option) \<Rightarrow> db option" where
  "writeWhere d None w = Some d"
| "writeWhere d (Some i) w = w i"

section \<open>The handlers of the six resources\<close>

definition handleBlogs :: "runtime \<Rightarrow> string \<Rightarrow> jsnum option \<Rightarrow> json_body option \<Rightarrow> db \<Rightarrow> result" where
  "handleBlogs rt method idv body d =
     (if method = ''GET'' then
        (if truthyId idv then
           (case selectWhere (keyOf idv) (select_blog d) of
              None \<Rightarrow> (Some (createErrorResponse ''Blog not found'' 404), d)
            | Some blog \<Rightarrow> (Some (createSuccessResponse (JBlog blog)), d))
         else (Some (createSuccessResponse (JBlogs (order_desc blog_CreatedAt (Blogs d)))), d))
      else if method = ''POST'' then
        (case body of
           None \<Rightarrow> (None, d)
         | Some blogData \<Rightarrow>
            (case (orNull (Name blogData), orNull (Slug blogData)) of
               (Some name, Some slug) \<Rightarrow>
                 (case insert_blog d name slug (orNull (Description blogData))
                         (orNull (Url blogData)) (iso rt 0) of
                    None \<Rightarrow> (None, d)
                  | Some (rowid, d') \<Rightarrow>
                      (Some (createSuccessResponse (orNullRow JBlog (select_blog d' rowid))), d'))
             | _ \<Rightarrow> (Some (createErrorResponse ''Name and Slug are required'' 400), d)))
      else if method = ''PUT'' then
        (if \<not> truthyId idv then (Some (createErrorResponse ''Blog ID is required for update'' 400), d)
         else
           (case body of
              None \<Rightarrow> (None, d)
            | Some updateBlogData \<Rightarrow>
               (case (orNull (Name updateBlogData), orNull (Slug updateBlogData)) of
                  (Some name, Some slug) \<Rightarrow>
                    (case writeWhere d (keyOf idv)
                            (\<lambda>i. update_blog d i name slug (orNull (Description updateBlogData))
                                   (orNull (Url updateBlogData))) of
                       None \<Rightarrow> (None, d)
                     | Some d' \<Rightarrow>
                         (Some (createSuccessResponse (orNullRow JBlog (selectWhere (keyOf idv) (select_blog d')))), d'))
                | _ \<Rightarrow> (Some (createErrorResponse ''Name and Slug are required'' 400), d))))
      else if method = ''DELETE'' then
        (if \<not> truthyId idv then (Some (createErrorResponse ''Blog ID is required for deletion'' 400), d)
         else
           (case writeWhere d (keyOf idv) (delete_blog d) of
              None \<Rightarrow> (None, d)
            | Some d' \<Rightarrow> (Some (createSuccessResponse (JMessage ''Blog deleted successfully'')), d')))
      else (Some (createErrorResponse ''Method not allowed'' 405), d))"

definition handleAuthors :: "runtime \<Rightarrow> string \<Rightarrow> jsnum option \<Rightarrow> json_body option \<Rightarrow> db \<Rightarrow> result" where
  "handleAuthors rt method idv body d =
     (if method = ''GET'' then
        (if truthyId idv then
           (case selectWhere (keyOf idv) (select_author d) of
              None \<Rightarrow> (Some (createErrorResponse ''Author not found'' 404), d)
            | Some author \<Rightarrow> (Some (createSuccessResponse (JAuthor (author_row_of d author))), d))
         else (Some (createSuccessResponse
                 (JAuthors (map (author_row_of d) (order_desc author_CreatedAt (Authors d))))), d))
      else if method = ''POST'' then
        (case body of
           None \<Rightarrow> (None, d)
         | Some authorData \<Rightarrow>
            (case (orNull (Name authorData), orNullNum (BlogId authorData)) of
               (Some name, Some blogId) \<Rightarrow>
                 (if select_blog d blogId = None then (Some (createErrorResponse ''Blog not found'' 404), d)
                  else
                    (case insert_author d blogId name (orNull (Email authorData))
                            (orNull (ProfileUrl authorData)) (orNull (Bio authorData)) (iso rt 0) of
                       None \<Rightarrow> (None, d)
                     | Some (rowid, d') \<Rightarrow>
                         (Some (createSuccessResponse
                            (orNullRow JAuthor (map_option (author_row_of d') (select_author d' rowid)))), d')))
             | _ \<Rightarrow> (Some (createErrorResponse ''Name and BlogId are required'' 400), d)))
      else if method = ''PUT'' then
        (if \<not> truthyId idv then (Some (createErrorResponse ''Author ID is required for update'' 400), d)
         else
           (case body of
              None \<Rightarrow> (None, d)
            | Some updateAuthorData \<Rightarrow>
               (case (orNull (Name updateAuthorData), orNullNum (BlogId updateAuthorData)) of
                  (Some name, Some blogId) \<Rightarrow>
                    (if select_blog d blogId = None then (Some (createErrorResponse ''Blog not found'' 404), d)
                     else
                       (case writeWhere d (keyOf idv)
                               (\<lambda>i. update_author d i blogId name (orNull (Email updateAuthorData))
                                      (orNull (ProfileUrl updateAuthorData)) (orNull (Bio updateAuthorData))) of
                          None \<Rightarrow> (None, d)
                        | Some d' \<Rightarrow>
                            (Some (createSuccessResponse
                               (orNullRow JAuthor (map_option (author_row_of d') (selectWhere (keyOf idv) (select_author d'))))), d')))
                | _ \<Rightarrow> (Some (createErrorResponse ''Name and BlogId are required'' 400), d))))
      else if method = ''DELETE'' then
        (if \<not> truthyId idv then (Some (createErrorResponse ''Author ID is required for deletion'' 400), d)
         else
           (case writeWhere d (keyOf idv) (delete_author d) of
              None \<Rightarrow> (None, d)
            | Some d' \<Rightarrow> (Some (createSuccessResponse (JMessage ''Author deleted successfully'')), d')))
      else (Some (createErrorResponse ''Method not allowed'' 405), d))"

definition handleCategories :: "runtime \<Rightarrow> string \<Rightarrow> jsnum option \<Rightarrow> json_body option \<Rightarrow> db \<Rightarrow> result" where
  "handleCategories rt method idv body d =
     (if method = ''GET'' then
        (if truthyId idv then
           (case selectWhere (keyOf idv) (select_category d) of
              None \<Rightarrow> (Some (createErrorResponse ''Category not found'' 404), d)
            | Some category \<Rightarrow> (Some (createSuccessResponse (JCategory (category_row_of d category))), d))
         else (Some (createSuccessResponse
                 (JCategories (map (category_row_of d) (order_asc category_Name (Categories d))))), d))
      else if method = ''POST'' then
        (case body of
           None \<Rightarrow> (None, d)
         | Some categoryData \<Rightarrow>
            (case (orNull (Name categoryData), orNullNum (BlogId categoryData)) of
               (Some name, Some blogId) \<Rightarrow>
                 (if select_blog d blogId = None then (Some (createErrorResponse ''Blog not found'' 404), d)
                  else
                    (case insert_category d blogId name (orNull (Slug categoryData)) of
                       None \<Rightarrow> (None, d)
                     | Some (rowid, d') \<Rightarrow>
                         (Some (createSuccessResponse
                            (orNullRow JCategory (map_option (category_row_of d') (select_category d' rowid)))), d')))
             | _ \<Rightarrow> (Some (createErrorResponse ''Name and BlogId are required'' 400), d)))
      else if method = ''PUT'' then
        (if \<not> truthyId idv then (Some (createErrorResponse ''Category ID is required for update'' 400), d)
         else
           (case body of
              None \<Rightarrow> (None, d)
            | Some updateCategoryData \<Rightarrow>
               (case (orNull (Name updateCategoryData), orNullNum (BlogId updateCategoryData)) of
                  (Some name, Some blogId) \<Rightarrow>
                    (if select_blog d blogId = None then (Some (createErrorResponse ''Blog not found'' 404), d)
                     else
                       (case writeWhere d (keyOf idv)
                               (\<lambda>i. update_category d i blogId name (orNull (Slug updateCategoryData))) of
                          None \<Rightarrow> (None, d)
                        | Some d' \<Rightarrow>
                            (Some (createSuccessResponse
                               (orNullRow JCategory (map_option (category_row_of d') (selectWhere (keyOf idv) (select_category d'))))), d')))
                | _ \<Rightarrow> (Some (createErrorResponse ''Name and BlogId are required'' 400), d))))
      else if method = ''DELETE'' then
        (if \<not> truthyId idv then (Some (createErrorResponse ''Category ID is required for deletion'' 400), d)
         else
           (case writeWhere d (keyOf idv) (delete_category d) of
              None \<Rightarrow> (None, d)
            | Some d' \<Rightarrow> (Some (createSuccessResponse (JMessage ''Category deleted successfully'')), d')))
      else (Some (createErrorResponse ''Method not allowed'' 405), d))"

text \<open>The query of \<open>GET /api/posts\<close> (lines 453 to 504): the conditions that the handler
  appends to \<open>WHERE 1=1\<close>, each with the value it binds, in the order of the source.
  \<open>searchParams.get\<close> gives the first value of a parameter, or null.\<close>

datatype post_cond =
    BlogIdIs jsnum
  | AuthorIdIs jsnum
  | CategoryIdIs jsnum
  | IsPublishedIs int
  | SearchLike string

fun post_holds :: "post_cond \<Rightarrow> post \<Rightarrow> bool" where
  "post_holds (BlogIdIs v) p = numEq (post_BlogId p) v"
| "post_holds (AuthorIdIs v) p = numEqOpt (post_AuthorId p) v"
| "post_holds (CategoryIdIs v) p = numEqOpt (post_CategoryId p) v"
| "post_holds (IsPublishedIs v) p = (post_IsPublished p = v)"
| "post_holds (SearchLike pat) p =
     (like pat (post_Title p) \<or> likeOpt pat (post_Content p) \<or> likeOpt pat (post_Excerpt p))"

definition posts_where :: "(string \<times> string) list \<Rightarrow> post_cond list" where
  "posts_where ps =
     (case orNull (map_of ps ''blog'') of None \<Rightarrow> [] | Some blogId \<Rightarrow> [BlogIdIs (parseInt blogId)]) @
     (case orNull (map_of ps ''author'') of None \<Rightarrow> [] | Some authorId \<Rightarrow> [AuthorIdIs (parseInt authorId)]) @
     (case orNull (map_of ps ''category'') of None \<Rightarrow> []
      | Some categoryId \<Rightarrow> [CategoryIdIs (parseInt categoryId)]) @
     (case orNull (map_of ps ''published'') of None \<Rightarrow> []
      | Some published \<Rightarrow> [IsPublishedIs (if published = ''true'' then 1 else 0)]) @
     (case orNull (map_of ps ''search'') of None \<Rightarrow> []
      | Some search \<Rightarrow> [SearchLike (''%'' @ search @ ''%'')])"

definition limitParam :: "(string \<times> string) list \<Rightarrow> jsnum" where
  "limitParam ps = parseInt (case orNull (map_of ps ''limit'') of None \<Rightarrow> ''50'' | Some l \<Rightarrow> l)"

definition offsetParam :: "(string \<times> string) list \<Rightarrow> jsnum" where
  "offsetParam ps = parseInt (case orNull (map_of ps ''offset'') of None \<Rightarrow> ''0'' | Some k \<Rightarrow> k)"

definition select_posts :: "db \<Rightarrow> post_cond list \<Rightarrow> jsnum \<Rightarrow> jsnum \<Rightarrow> post_row list option" where
  "select_posts d conds lim off =
     map_option (map (post_row_of d))
       (limitOffset lim off
          (order_desc post_CreatedAt (filter (\<lambda>p. list_all (\<lambda>c. post_holds c p) conds) (Posts d))))"

text \<open>The row that \<open>POST\<close> and \<open>PUT\<close> of a post bind. \<open>PostId\<close> is set by the store.\<close>

definition post_of_body ::
  "json_body \<Rightarrow> int \<Rightarrow> string \<Rightarrow> string \<Rightarrow> string option \<Rightarrow> string \<Rightarrow> string option \<Rightarrow> post" where
  "post_of_body b blogId title slug publishedAt createdAt updatedAt =
     \<lparr>post_PostId = 0, post_BlogId = blogId, post_AuthorId = orNullNum (AuthorId b),
      post_CategoryId = orNullNum (CategoryId b), post_Title = title, post_Slug = slug,
      post_Content = orNull (Content b), post_Excerpt = orNull (Excerpt b),
      post_PublishedAt = orNull publishedAt, post_IsPublished = orZero (IsPublished b),
      post_Views = orZero (Views b), post_ExternalId = orNull (ExternalId b),
      post_CreatedAt = createdAt, post_UpdatedAt = updatedAt\<rparr>"

text \<open>\<open>if (data.IsPublished && !data.PublishedAt) data.PublishedAt = getCurrentTimestamp()\<close>;
  it is the second reading of the clock in the request.\<close>

definition publishedAtOf :: "runtime \<Rightarrow> json_body \<Rightarrow> string option" where
  "publishedAtOf rt b =
     (if orNullNum (IsPublished b) \<noteq> None \<and> orNull (PublishedAt b) = None then Some (iso rt 1)
      else PublishedAt b)"

text \<open>The loop that inserts the tags of a post. It stops where an insert throws; the
  rows written before stay. The first component tells whether it came to its end.\<close>

fun insert_posttags :: "db \<Rightarrow> int \<Rightarrow> int list \<Rightarrow> bool \<times> db" where
  "insert_posttags d postId [] = (True, d)"
| "insert_posttags d postId (tagId # tagIds) =
     (case insert_posttag d postId tagId of
        None \<Rightarrow> (False, d)
      | Some d' \<Rightarrow> insert_posttags d' postId tagIds)"

text \<open>With a bound \<open>id\<close> that equals no key, the tags of the post read as none, and
  the insert of a tag of the post is refused, as no post has that \<open>id\<close>.\<close>

definition handlePosts ::
  "runtime \<Rightarrow> string \<Rightarrow> jsnum option \<Rightarrow> json_body option \<Rightarrow> (string \<times> string) list \<Rightarrow> db \<Rightarrow> result" where
  "handlePosts rt method idv body ps d =
     (if method = ''GET'' then
        (if truthyId idv then
           (case selectWhere (keyOf idv) (select_post d) of
              None \<Rightarrow> (Some (createErrorResponse ''Post not found'' 404), d)
            | Some post \<Rightarrow>
                (Some (createSuccessResponse
                   (JPostWithTags (post_row_of d post)
                      (case keyOf idv of None \<Rightarrow> [] | Some i \<Rightarrow> select_tags_of_post d i))), d))
         else
           (case select_posts d (posts_where ps) (limitParam ps) (offsetParam ps) of
              None \<Rightarrow> (None, d)
            | Some results \<Rightarrow> (Some (createSuccessResponse (JPosts results)), d)))
      else if method = ''POST'' then
        (case body of
           None \<Rightarrow> (None, d)
         | Some postData \<Rightarrow>
            (case (orNull (Title postData), orNull (Slug postData), orNullNum (BlogId postData)) of
               (Some title, Some slug, Some blogId) \<Rightarrow>
                 (if select_blog d blogId = None then (Some (createErrorResponse ''Blog not found'' 404), d)
                  else if (case orNullNum (AuthorId postData) of None \<Rightarrow> False
                           | Some a \<Rightarrow> select_author d a = None)
                  then (Some (createErrorResponse ''Author not found'' 404), d)
                  else if (case orNullNum (CategoryId postData) of None \<Rightarrow> False
                           | Some c \<Rightarrow> select_category d c = None)
                  then (Some (createErrorResponse ''Category not found'' 404), d)
                  else
                    (case insert_post d (post_of_body postData blogId title slug
                            (publishedAtOf rt postData) (iso rt 0) (orNull (UpdatedAt postData))) of
                       None \<Rightarrow> (None, d)
                     | Some (newPostId, d1) \<Rightarrow>
                         (case insert_posttags d1 newPostId
                                 (case tags postData of None \<Rightarrow> [] | Some ts \<Rightarrow> ts) of
                            (False, d2) \<Rightarrow> (None, d2)
                          | (True, d2) \<Rightarrow>
                              (Some (createSuccessResponse
                                 (orNullRow JPost (map_option (post_row_of d2) (select_post d2 newPostId)))), d2))))
             | _ \<Rightarrow> (Some (createErrorResponse ''Title, Slug, and BlogId are required'' 400), d)))
      else if method = ''PUT'' then
        (if \<not> truthyId idv then (Some (createErrorResponse ''Post ID is required for update'' 400), d)
         else
           (case body of
              None \<Rightarrow> (None, d)
            | Some updatePostData \<Rightarrow>
               (case (orNull (Title updatePostData), orNull (Slug updatePostData),
                      orNullNum (BlogId updatePostData)) of
                  (Some title, Some slug, Some blogId) \<Rightarrow>
                    (if select_blog d blogId = None then (Some (createErrorResponse ''Blog not found'' 404), d)
                     else if (case orNullNum (AuthorId updatePostData) of None \<Rightarrow> False
                              | Some a \<Rightarrow> select_author d a = None)
                     then (Some (createErrorResponse ''Author not found'' 404), d)
                     else if (case orNullNum (CategoryId updatePostData) of None \<Rightarrow> False
                              | Some c \<Rightarrow> select_category d c = None)
                     then (Some (createErrorResponse ''Category not found'' 404), d)
                     else
                       (case writeWhere d (keyOf idv)
                               (\<lambda>i. update_post d i (post_of_body updatePostData blogId title slug
                                      (publishedAtOf rt updatePostData) [] (Some (iso rt 0)))) of
                          None \<Rightarrow> (None, d)
                        | Some d1 \<Rightarrow>
                            (case (case tags updatePostData of
                                     None \<Rightarrow> (True, d1)
                                   | Some ts \<Rightarrow>
                                       (case writeWhere d1 (keyOf idv) (delete_posttags_of d1) of
                                          None \<Rightarrow> (False, d1)
                                        | Some d2 \<Rightarrow>
                                            (case keyOf idv of
                                               None \<Rightarrow> (ts = [], d2)
                                             | Some i \<Rightarrow> insert_posttags d2 i ts))) of
                               (False, d3) \<Rightarrow> (None, d3)
                             | (True, d3) \<Rightarrow>
                                 (Some (createSuccessResponse
                                    (orNullRow JPost (map_option (post_row_of d3) (selectWhere (keyOf idv) (select_post d3))))), d3))))
                | _ \<Rightarrow> (Some (createErrorResponse ''Title, Slug, and BlogId are required'' 400), d))))
      else if method = ''DELETE'' then
        (if \<not> truthyId idv then (Some (createErrorResponse ''Post ID is required for deletion'' 400), d)
         else
           (case writeWhere d (keyOf idv) (delete_post d) of
              None \<Rightarrow> (None, d)
            | Some d' \<Rightarrow> (Some (createSuccessResponse (JMessage ''Post deleted successfully'')), d')))
      else (Some (createErrorResponse ''Method not allowed'' 405), d))"

definition handleTags :: "runtime \<Rightarrow> string \<Rightarrow> jsnum option \<Rightarrow> json_body option \<Rightarrow> db \<Rightarrow> result" where
  "handleTags rt method idv body d =
     (if method = ''GET'' then
        (if truthyId idv then
           (case selectWhere (keyOf idv) (select_tag d) of
              None \<Rightarrow> (Some (createErrorResponse ''Tag not found'' 404), d)
            | Some tag \<Rightarrow> (Some (createSuccessResponse (JTag (tag_row_of d tag))), d))
         else (Some (createSuccessResponse (JTags (map (tag_row_of d) (order_asc tag_Name (Tags d))))), d))
      else if method = ''POST'' then
        (case body of
           None \<Rightarrow> (None, d)
         | Some tagData \<Rightarrow>
            (case orNull (Name tagData) of
               None \<Rightarrow> (Some (createErrorResponse ''Name is required'' 400), d)
             | Some name \<Rightarrow>
                 (if find (\<lambda>t. tag_Name t = name) (Tags d) \<noteq> None
                  then (Some (createErrorResponse ''Tag with this name already exists'' 409), d)
                  else
                    (case insert_tag d name of
                       None \<Rightarrow> (None, d)
                     | Some (rowid, d') \<Rightarrow>
                         (Some (createSuccessResponse
                            (orNullRow JTag (map_option (\<lambda>t. (t, 0)) (select_tag d' rowid)))), d')))))
      else if method = ''PUT'' then
        (if \<not> truthyId idv then (Some (createErrorResponse ''Tag ID is required for update'' 400), d)
         else
           (case body of
              None \<Rightarrow> (None, d)
            | Some updateTagData \<Rightarrow>
               (case orNull (Name updateTagData) of
                  None \<Rightarrow> (Some (createErrorResponse ''Name is required'' 400), d)
                | Some name \<Rightarrow>
                    (if find (\<lambda>t. tag_Name t = name \<and> Some (tag_TagId t) \<noteq> keyOf idv) (Tags d) \<noteq> None
                     then (Some (createErrorResponse ''Tag with this name already exists'' 409), d)
                     else
                       (case writeWhere d (keyOf idv) (\<lambda>i. update_tag d i name) of
                          None \<Rightarrow> (None, d)
                        | Some d' \<Rightarrow>
                            (Some (createSuccessResponse
                               (orNullRow JTag (map_option (tag_row_of d') (selectWhere (keyOf idv) (select_tag d'))))), d'))))))
      else if method = ''DELETE'' then
        (if \<not> truthyId idv then (Some (createErrorResponse ''Tag ID is required for deletion'' 400), d)
         else
           (case writeWhere d (keyOf idv) (delete_tag d) of
              None \<Rightarrow> (None, d)
            | Some d' \<Rightarrow> (Some (createSuccessResponse (JMessage ''Tag deleted successfully'')), d')))
      else (Some (createErrorResponse ''Method not allowed'' 405), d))"

text \<open>The query of \<open>GET /api/comments\<close> (lines 803 to 830).\<close>

datatype comment_cond =
    PostIdIs jsnum
  | IsApprovedIs int

fun comment_holds :: "comment_cond \<Rightarrow> comment \<Rightarrow> bool" where
  "comment_holds (PostIdIs v) c = numEq (comment_PostId c) v"
| "comment_holds (IsApprovedIs v) c = (comment_IsApproved c = v)"

definition comments_where :: "(string \<times> string) list \<Rightarrow> comment_cond list" where
  "comments_where ps =
     (case orNull (map_of ps ''post'') of None \<Rightarrow> [] | Some postId \<Rightarrow> [PostIdIs (parseInt postId)]) @
     (case orNull (map_of ps ''approved'') of None \<Rightarrow> []
      | Some approved \<Rightarrow> [IsApprovedIs (if approved = ''true'' then 1 else 0)])"

definition select_comments :: "db \<Rightarrow> comment_cond list \<Rightarrow> jsnum \<Rightarrow> jsnum \<Rightarrow> comment_row list option" where
  "select_comments d conds lim off =
     map_option (map (comment_row_of d))
       (limitOffset lim off
          (order_desc comment_CreatedAt
             (filter (\<lambda>c. list_all (\<lambda>k. comment_holds k c) conds) (Comments d))))"

definition comment_of_body :: "json_body \<Rightarrow> int \<Rightarrow> string \<Rightarrow> string \<Rightarrow> comment" where
  "comment_of_body b postId content createdAt =
     \<lparr>comment_CommentId = 0, comment_PostId = postId, comment_AuthorName = orNull (AuthorName b),
      comment_AuthorEmail = orNull (AuthorEmail b), comment_Content = content,
      comment_CreatedAt = createdAt, comment_IsApproved = orZero (IsApproved b),
      comment_ExternalId = orNull (ExternalId b)\<rparr>"

definition handleComments ::
  "runtime \<Rightarrow> string \<Rightarrow> jsnum option \<Rightarrow> json_body option \<Rightarrow> (string \<times> string) list \<Rightarrow> db \<Rightarrow> result" where
  "handleComments rt method idv body ps d =
     (if method = ''GET'' then
        (if truthyId idv then
           (case selectWhere (keyOf idv) (select_comment d) of
              None \<Rightarrow> (Some (createErrorResponse ''Comment not found'' 404), d)
            | Some comment \<Rightarrow> (Some (createSuccessResponse (JComment (comment_row_of d comment))), d))
         else
           (case select_comments d (comments_where ps) (limitParam ps) (offsetParam ps) of
              None \<Rightarrow> (None, d)
            | Some results \<Rightarrow> (Some (createSuccessResponse (JComments results)), d)))
      else if method = ''POST'' then
        (case body of
           None \<Rightarrow> (None, d)
         | Some commentData \<Rightarrow>
            (case (orNull (Content commentData), orNullNum (PostId commentData)) of
               (Some content, Some postId) \<Rightarrow>
                 (if select_post d postId = None then (Some (createErrorResponse ''Post not found'' 404), d)
                  else
                    (case insert_comment d (comment_of_body commentData postId content (iso rt 0)) of
                       None \<Rightarrow> (None, d)
                     | Some (rowid, d') \<Rightarrow>
                         (Some (createSuccessResponse
                            (orNullRow JComment (map_option (comment_row_of d') (select_comment d' rowid)))), d')))
             | _ \<Rightarrow> (Some (createErrorResponse ''Content and PostId are required'' 400), d)))
      else if method = ''PUT'' then
        (if \<not> truthyId idv then (Some (createErrorResponse ''Comment ID is required for update'' 400), d)
         else
           (case body of
              None \<Rightarrow> (None, d)
            | Some updateCommentData \<Rightarrow>
               (case (orNull (Content updateCommentData), orNullNum (PostId updateCommentData)) of
                  (Some content, Some postId) \<Rightarrow>
                    (if select_post d postId = None then (Some (createErrorResponse ''Post not found'' 404), d)
                     else
                       (case writeWhere d (keyOf idv)
                               (\<lambda>i. update_comment d i (comment_of_body updateCommentData postId content [])) of
                          None \<Rightarrow> (None, d)
                        | Some d' \<Rightarrow>
                            (Some (createSuccessResponse
                               (orNullRow JComment (map_option (comment_row_of d') (selectWhere (keyOf idv) (select_comment d'))))), d')))
                | _ \<Rightarrow> (Some (createErrorResponse ''Content and PostId are required'' 400), d))))
      else if method = ''DELETE'' then
        (if \<not> truthyId idv then (Some (createErrorResponse ''Comment ID is required for deletion'' 400), d)
         else
           (case writeWhere d (keyOf idv) (delete_comment d) of
              None \<Rightarrow> (None, d)
            | Some d' \<Rightarrow> (Some (createSuccessResponse (JMessage ''Comment deleted successfully'')), d')))
      else (Some (createErrorResponse ''Method not allowed'' 405), d))"

section \<open>The simple-post workflow\<close>

text \<open>The three find-or-create steps (lines 942 to 1012). Each gives \<open>None\<close> when a call
  throws, and otherwise the row that the last \<open>first()\<close> returned (or null) together with
  the number of readings of the clock so far. The arguments of \<open>bind\<close> are evaluated from
  left to right, so \<open>new URL\<close> throws before the clock is read and before the store is
  asked.\<close>

definition resolveBlog :: "runtime \<Rightarrow> string \<Rightarrow> db \<Rightarrow> (blog option \<times> nat) option \<times> db" where
  "resolveBlog rt url d =
     (case select_blog_by_url d url of
        Some blog \<Rightarrow> (Some (Some blog, 0), d)
      | None \<Rightarrow>
          (case hostname rt url of
             None \<Rightarrow> (None, d)
           | Some host \<Rightarrow>
               (case insert_blog d (capitalize (blogName host)) (blogSlug host)
                       (Some (''Auto-created blog for '' @ host)) (Some url) (iso rt 0) of
                  None \<Rightarrow> (None, d)
                | Some (rowid, d') \<Rightarrow> (Some (select_blog d' rowid, 1), d'))))"

definition resolveAuthor ::
  "runtime \<Rightarrow> string \<Rightarrow> blog \<Rightarrow> nat \<Rightarrow> db \<Rightarrow> (author option \<times> nat) option \<times> db" where
  "resolveAuthor rt url blog k d =
     (case select_author_of_blog d (blog_BlogId blog) of
        Some author \<Rightarrow> (Some (Some author, k), d)
      | None \<Rightarrow>
          (case hostname rt url of
             None \<Rightarrow> (None, d)
           | Some host \<Rightarrow>
               (case insert_author d (blog_BlogId blog) ''Default Author'' (Some (''author@'' @ host))
                       None (Some ''Auto-created default author'') (iso rt k) of
                  None \<Rightarrow> (None, d)
                | Some (rowid, d') \<Rightarrow> (Some (select_author d' rowid, k + 1), d'))))"

definition resolveCategory :: "blog \<Rightarrow> db \<Rightarrow> category option option \<times> db" where
  "resolveCategory blog d =
     (case select_category_of_blog d (blog_BlogId blog) of
        Some category \<Rightarrow> (Some (Some category), d)
      | None \<Rightarrow>
          (case insert_category d (blog_BlogId blog) ''General'' (Some ''general'') of
             None \<Rightarrow> (None, d)
           | Some (rowid, d') \<Rightarrow> (Some (select_category d' rowid), d')))"

text \<open>The row of \<open>Posts\<close> that round \<open>i\<close> of the loop binds for the trimmed entry
  \<open>postText\<close> (lines 1022 to 1061); \<open>ExternalId\<close> is not among the columns of the
  \<open>INSERT\<close> and stays null.\<close>

definition simplePostRow :: "runtime \<Rightarrow> blog \<Rightarrow> author \<Rightarrow> category \<Rightarrow> nat \<Rightarrow> nat \<Rightarrow> string \<Rightarrow> post" where
  "simplePostRow rt blog author category i k postText =
     (let title = postTitle i postText;
          slug = postSlug (millis rt i) i title;
          excerpt = postExcerpt postText;
          currentTime = iso rt k
      in \<lparr>post_PostId = 0, post_BlogId = blog_BlogId blog,
          post_AuthorId = Some (author_AuthorId author),
          post_CategoryId = Some (category_CategoryId category),
          post_Title = title, post_Slug = slug, post_Content = Some postText,
          post_Excerpt = Some excerpt, post_PublishedAt = Some currentTime,
          post_IsPublished = 1, post_Views = 0, post_ExternalId = None,
          post_CreatedAt = currentTime, post_UpdatedAt = Some currentTime\<rparr>)"

text \<open>The loop over \<open>postTexts\<close> (lines 1017 to 1076): \<open>i\<close> is the index of the entry in
  the input, \<open>k\<close> the number of readings of the clock so far, \<open>createdPosts\<close> the rows
  pushed so far. A blank entry is skipped; an insert that throws ends the loop and keeps
  the rows written before.\<close>

fun createPosts ::
  "runtime \<Rightarrow> blog \<Rightarrow> author \<Rightarrow> category \<Rightarrow> nat \<Rightarrow> nat \<Rightarrow> string list \<Rightarrow> post_row option list \<Rightarrow> db
     \<Rightarrow> post_row option list option \<times> db" where
  "createPosts rt blog author category i k [] createdPosts d = (Some createdPosts, d)"
| "createPosts rt blog author category i k (text # texts) createdPosts d =
     (let postText = trim text in
      if postText = [] then createPosts rt blog author category (i + 1) k texts createdPosts d
      else
        (case insert_post d (simplePostRow rt blog author category i k postText) of
           None \<Rightarrow> (None, d)
         | Some (rowid, d') \<Rightarrow>
             createPosts rt blog author category (i + 1) (k + 1) texts
               (createdPosts @ [map_option (post_row_of d') (select_post d' rowid)]) d'))"

text \<open>The body of the \<open>try\<close> block of \<open>handleSimplePost\<close>.\<close>

definition simplePostTry :: "runtime \<Rightarrow> json_body option \<Rightarrow> db \<Rightarrow> result" where
  "simplePostTry rt body d =
     (case body of
        None \<Rightarrow> (None, d)
      | Some requestData \<Rightarrow>
          (case (orNull (blogUrl requestData), postTexts requestData) of
             (Some url, Arr texts) \<Rightarrow>
               (if texts = [] then (Some (createErrorResponse ''At least one post text is required'' 400), d)
                else
                  (case resolveBlog rt url d of
                     (None, d1) \<Rightarrow> (None, d1)
                   | (Some (None, k1), d1) \<Rightarrow>
                       (Some (createErrorResponse ''Failed to create or find blog'' 500), d1)
                   | (Some (Some blog, k1), d1) \<Rightarrow>
                       (case resolveAuthor rt url blog k1 d1 of
                          (None, d2) \<Rightarrow> (None, d2)
                        | (Some (None, k2), d2) \<Rightarrow>
                            (Some (createErrorResponse ''Failed to create or find author'' 500), d2)
                        | (Some (Some author, k2), d2) \<Rightarrow>
                            (case resolveCategory blog d2 of
                               (None, d3) \<Rightarrow> (None, d3)
                             | (Some None, d3) \<Rightarrow>
                                 (Some (createErrorResponse ''Failed to create or find category'' 500), d3)
                             | (Some (Some category), d3) \<Rightarrow>
                                 (case createPosts rt blog author category 0 k2 texts [] d3 of
                                    (None, d4) \<Rightarrow> (None, d4)
                                  | (Some createdPosts, d4) \<Rightarrow>
                                      (Some (createSuccessResponse
                                         (JSimple blog author category (length createdPosts) createdPosts)), d4))))))
           | _ \<Rightarrow> (Some (createErrorResponse ''blogUrl (string) and postTexts (array) are required'' 400), d)))"

definition handleSimplePost :: "runtime \<Rightarrow> string \<Rightarrow> json_body option \<Rightarrow> db \<Rightarrow> result" where
  "handleSimplePost rt method body d =
     (if method \<noteq> ''POST'' then
        (Some (createErrorResponse ''Only POST method allowed for simple posts'' 405), d)
      else
        (case simplePostTry rt body d of
           (None, d') \<Rightarrow> (Some (createErrorResponse ''Failed to create posts'' 500), d')
         | (Some r, d') \<Rightarrow> (Some r, d')))"

section \<open>The router\<close>

text \<open>\<open>pathname.split('/').filter(Boolean)\<close>: the pieces between the slashes that are
  not empty.\<close>

fun splitOn :: "char \<Rightarrow> string \<Rightarrow> string list" where
  "splitOn sep [] = [[]]"
| "splitOn sep (c # cs) =
     (if c = sep then [] # splitOn sep cs
      else (case splitOn sep cs of [] \<Rightarrow> [[c]] | x # xs \<Rightarrow> (c # x) # xs))"

definition pathSegments :: "string \<Rightarrow> string list" where
  "pathSegments path = filter (\<lambda>s. s \<noteq> []) (splitOn (CHR ''/'') path)"

text \<open>\<open>xs[i]\<close>, undefined beyond the end.\<close>

definition nth_opt :: "'a list \<Rightarrow> nat \<Rightarrow> 'a option" where
  "nth_opt xs i = (if i < length xs then Some (xs ! i) else None)"

text \<open>The \<open>catch\<close> of \<open>handleRequest\<close>: a handler that throws is answered with 500; what
  it wrote before stays.\<close>

definition catchInternal :: "result \<Rightarrow> response \<times> db" where
  "catchInternal x =
     (case x of
        (None, d') \<Rightarrow> (createErrorResponse ''Internal server error'' 500, d')
      | (Some r, d') \<Rightarrow> (r, d'))"

text \<open>\<open>handleRequest\<close> behind the split of the path: the test for the prefix and the
  switch over the resource inside the \<open>try\<close>.\<close>

definition route :: "runtime \<Rightarrow> string list \<Rightarrow> request \<Rightarrow> db \<Rightarrow> response \<times> db" where
  "route rt segs req d =
     (if nth_opt segs 0 \<noteq> Some ''api'' then
        (\<lparr>status = 200, payload = JText ''Blog API Server - Use /api/* endpoints''\<rparr>, d)
      else
        let resource = nth_opt segs 1;
            idv = (case nth_opt segs 2 of None \<Rightarrow> None | Some seg \<Rightarrow> Some (parseInt seg))
        in catchInternal
             (if resource = Some ''blogs'' then handleBlogs rt (meth req) idv (json req) d
              else if resource = Some ''authors'' then handleAuthors rt (meth req) idv (json req) d
              else if resource = Some ''categories'' then handleCategories rt (meth req) idv (json req) d
              else if resource = Some ''posts'' then
                handlePosts rt (meth req) idv (json req) (searchParams req) d
              else if resource = Some ''tags'' then handleTags rt (meth req) idv (json req) d
              else if resource = Some ''comments'' then
                handleComments rt (meth req) idv (json req) (searchParams req) d
              else if resource = Some ''simple'' then handleSimplePost rt (meth req) (json req) d
              else (Some (createErrorResponse ''Resource not found'' 404), d)))"

definition handleRequest :: "runtime \<Rightarrow> request \<Rightarrow> db \<Rightarrow> response \<times> db" where
  "handleRequest rt req d = route rt (pathSegments (pathname req)) req d"

section \<open>Notions of the specification\<close>

text \<open>The definitions of this section are not taken from index.ts. They say, in the
  terms of the model, what the statements below are about.\<close>

text \<open>The entries of \<open>postTexts\<close> that are not blank, each trimmed and with its index in
  the input, counted from \<open>i\<close>.\<close>

fun entriesFrom :: "nat \<Rightarrow> string list \<Rightarrow> (nat \<times> string) list" where
  "entriesFrom i [] = []"
| "entriesFrom i (t # ts) =
     (if trim t = [] then entriesFrom (i + 1) ts else (i, trim t) # entriesFrom (i + 1) ts)"

text \<open>The entries of a \<open>postTexts\<close> field: those of the array, none otherwise.\<close>

fun textsOf :: "postTexts_field \<Rightarrow> string list" where
  "textsOf (Arr texts) = texts"
| "textsOf _ = []"

text \<open>The title as the specification words it: the text before the first terminator, cut
  to 50 characters, with the ellipsis when that is exactly 50 characters long and does not
  end in one, and the fallback when it is empty.\<close>

definition spec_title :: "nat \<Rightarrow> string \<Rightarrow> string" where
  "spec_title i postText =
     (let title = take 50 (takeWhile (\<lambda>c. \<not> isTerminator c) postText);
          title = (if length title = 50 \<and> \<not> endsWith title ''...'' then title @ ''...'' else title)
      in if title = [] then ''Post '' @ show_nat (i + 1) else title)"

text \<open>The excerpt as the specification words it: the first 150 characters and an
  ellipsis for a text of more than 150 characters, the text itself otherwise.\<close>

definition spec_excerpt :: "string \<Rightarrow> string" where
  "spec_excerpt postText =
     (if length postText > 150 then take 150 postText @ ''...'' else postText)"

text \<open>The slug of an auto-created blog as the specification words it: the host name
  without a leading \<open>www.\<close> and without its final extension, in lower case, every maximal
  run of characters other than \<open>a-z\<close> and \<open>0-9\<close> replaced by one hyphen.\<close>

definition spec_blogSlug :: "string \<Rightarrow> string" where
  "spec_blogSlug host =
     collapseRuns (\<lambda>c. \<not> (isLower c \<or> isDigit c))
       (toLowerCase (stripExt (if take 4 host = ''www.'' then drop 4 host else host)))"

text \<open>The six resources, whether a row with a given key is in the table of a resource,
  and the message that confirms a deletion.\<close>

definition resources :: "string list" where
  "resources = [''blogs'', ''authors'', ''categories'', ''posts'', ''tags'', ''comments'']"

definition row_exists :: "string \<Rightarrow> int \<Rightarrow> db \<Rightarrow> bool" where
  "row_exists resource i d =
     (if resource = ''blogs'' then select_blog d i \<noteq> None
      else if resource = ''authors'' then select_author d i \<noteq> None
      else if resource = ''categories'' then select_category d i \<noteq> None
      else if resource = ''posts'' then select_post d i \<noteq> None
      else if resource = ''tags'' then select_tag d i \<noteq> None
      else if resource = ''comments'' then select_comment d i \<noteq> None
      else False)"

definition deletedMessage :: "string \<Rightarrow> string" where
  "deletedMessage resource =
     (if resource = ''blogs'' then ''Blog deleted successfully''
      else if resource = ''authors'' then ''Author deleted successfully''
      else if resource = ''categories'' then ''Category deleted successfully''
      else if resource = ''posts'' then ''Post deleted successfully''
      else if resource = ''tags'' then ''Tag deleted successfully''
      else ''Comment deleted successfully'')"

text \<open>A reference of a body that is required (given, not 0, and found), and one that is
  optional (found when it is given and not 0).\<close>

definition refExists :: "int option \<Rightarrow> (int \<Rightarrow> bool) \<Rightarrow> bool" where
  "refExists ref found = (case orNullNum ref of None \<Rightarrow> False | Some i \<Rightarrow> found i)"

definition refExistsIfGiven :: "int option \<Rightarrow> (int \<Rightarrow> bool) \<Rightarrow> bool" where
  "refExistsIfGiven ref found = (case orNullNum ref of None \<Rightarrow> True | Some i \<Rightarrow> found i)"

text \<open>A body that passes the checks of \<open>PUT\<close> on a resource: the required fields are
  there, the rows it refers to exist, no other tag has the name, and, for a post, no
  \<open>tags\<close> array is given.\<close>

definition put_body_accepted :: "string \<Rightarrow> int \<Rightarrow> json_body \<Rightarrow> db \<Rightarrow> bool" where
  "put_body_accepted resource i b d =
     (if resource = ''blogs'' then orNull (Name b) \<noteq> None \<and> orNull (Slug b) \<noteq> None
      else if resource = ''authors'' \<or> resource = ''categories'' then
        orNull (Name b) \<noteq> None \<and> refExists (BlogId b) (\<lambda>k. select_blog d k \<noteq> None)
      else if resource = ''posts'' then
        orNull (Title b) \<noteq> None \<and> orNull (Slug b) \<noteq> None \<and>
        refExists (BlogId b) (\<lambda>k. select_blog d k \<noteq> None) \<and>
        refExistsIfGiven (AuthorId b) (\<lambda>k. select_author d k \<noteq> None) \<and>
        refExistsIfGiven (CategoryId b) (\<lambda>k. select_category d k \<noteq> None) \<and>
        tags b = None
      else if resource = ''tags'' then
        orNull (Name b) \<noteq> None \<and>
        find (\<lambda>t. Some (tag_Name t) = orNull (Name b) \<and> tag_TagId t \<noteq> i) (Tags d) = None
      else if resource = ''comments'' then
        orNull (Content b) \<noteq> None \<and> refExists (PostId b) (\<lambda>k. select_post d k \<noteq> None)
      else False)"

text \<open>The deletions that the foreign keys of \<open>Posts\<close> forbid: of an author or a category
  that a post refers to, and of a blog one of whose authors or categories a post of
  another blog refers to.\<close>

definition delete_refused :: "string \<Rightarrow> int \<Rightarrow> db \<Rightarrow> bool" where
  "delete_refused resource i d =
     (if resource = ''blogs'' then
        select_blog d i \<noteq> None \<and>
        (\<exists>p \<in> set (Posts d). post_BlogId p \<noteq> i \<and>
           (refersTo (post_AuthorId p)
              (map author_AuthorId (filter (\<lambda>a. author_BlogId a = i) (Authors d))) \<or>
            refersTo (post_CategoryId p)
              (map category_CategoryId (filter (\<lambda>c. category_BlogId c = i) (Categories d)))))
      else if resource = ''authors'' then
        select_author d i \<noteq> None \<and> (\<exists>p \<in> set (Posts d). post_AuthorId p = Some i)
      else if resource = ''categories'' then
        select_category d i \<noteq> None \<and> (\<exists>p \<in> set (Posts d). post_CategoryId p = Some i)
      else False)"

text \<open>What the handler of a resource answers to \<open>DELETE\<close> with a true id, given what the
  store made of the statement.\<close>

definition deleteOutcome :: "string \<Rightarrow> db option \<Rightarrow> db \<Rightarrow> response \<times> db" where
  "deleteOutcome resource x d =
     (case x of
        None \<Rightarrow> (createErrorResponse ''Internal server error'' 500, d)
      | Some d' \<Rightarrow> (createSuccessResponse (JMessage (deletedMessage resource)), d'))"

text \<open>The filter that the parameter \<open>published\<close> stands for: none when it is absent or
  empty, \<open>IsPublished = 1\<close> for the value \<open>true\<close>, \<open>IsPublished = 0\<close> for any other.\<close>

fun published_filter :: "string option \<Rightarrow> int \<Rightarrow> bool" where
  "published_filter None v = True"
| "published_filter (Some s) v = (if s = [] then True else if s = ''true'' then v = 1 else v = 0)"

text \<open>The query of a request without the values of one parameter.\<close>

definition without_param :: "string \<Rightarrow> (string \<times> string) list \<Rightarrow> (string \<times> string) list" where
  "without_param name ps = filter (\<lambda>kv. fst kv \<noteq> name) ps"

text \<open>A clock that prints a date: \<open>toISOString()\<close> gives 24 characters or more, never the
  empty string.\<close>

definition clock_ok :: "runtime \<Rightarrow> bool" where
  "clock_ok rt = (\<forall>k. iso rt k \<noteq> [])"

text \<open>A post that, if it is published, has a date of publication.\<close>

definition stamped :: "post \<Rightarrow> bool" where
  "stamped p = (post_IsPublished p = 1 \<longrightarrow> post_PublishedAt p \<noteq> None)"

text \<open>The body of a published post that supplies no date of publication.\<close>

definition publishedWithoutDate :: "json_body \<Rightarrow> bool" where
  "publishedWithoutDate b = (orNullNum (IsPublished b) \<noteq> None \<and> orNull (PublishedAt b) = None)"

text \<open>The posts that an operation wrote: the rows of the store after it that the store
  before it did not hold.\<close>

definition written :: "db \<Rightarrow> db \<Rightarrow> post list" where
  "written d d' = filter (\<lambda>p. p \<notin> set (Posts d)) (Posts d')"

text \<open>The stores that the creation of a post (\<open>POST /api/posts\<close>), the update of a post
  (\<open>PUT /api/posts/{id}\<close>) and the simple-post workflow lead to from a store \<open>d0\<close>, with
  any request and whatever the outcome of the operation.\<close>

inductive reachable :: "db \<Rightarrow> db \<Rightarrow> bool" for d0 :: db where
  start: "reachable d0 d0"
| create: "reachable d0 d \<Longrightarrow> clock_ok rt \<Longrightarrow>
     reachable d0 (snd (handlePosts rt ''POST'' idv body ps d))"
| update: "reachable d0 d \<Longrightarrow> clock_ok rt \<Longrightarrow>
     reachable d0 (snd (handlePosts rt ''PUT'' idv body ps d))"
| ingest: "reachable d0 d \<Longrightarrow> reachable d0 (snd (handleSimplePost rt ''POST'' body d))"

section \<open>Sample data\<close>

text \<open>A clock and a URL parser for three addresses.\<close>

definition sample_runtime :: runtime where
  "sample_runtime =
     \<lparr>iso = (\<lambda>k. ''2024-05-01T10:00:00.000Z''),
      millis = (\<lambda>i. 1714),
      hostname = (\<lambda>u. if u = ''https://myblog.com'' then Some ''myblog.com''
                       else if u = ''https://my--blog.com'' then Some ''my--blog.com''
                       else if u = ''https://tech.example.com'' then Some ''tech.example.com''
                       else None)\<rparr>"

text \<open>Rows of the seed data of schema.sql: blog 1 with its author 1 and its category 1,
  post 101 of that author in that category, tag 1 on the post, and comment 1001 on it
  (its text cut after the second word).\<close>

definition seed_db :: db where
  "seed_db =
     \<lparr>Blogs = [\<lparr>blog_BlogId = 1, blog_Name = ''Tech Thoughts'', blog_Slug = ''tech-thoughts'',
                 blog_Description = Some ''Personal essays on software, devops, and tooling'',
                 blog_Url = Some ''https://tech.example.com'',
                 blog_CreatedAt = ''2020-01-10T08:00:00Z''\<rparr>],
      Authors = [\<lparr>author_AuthorId = 1, author_BlogId = 1, author_Name = ''Ava Martin'',
                   author_Email = Some ''ava@tech.example.com'',
                   author_ProfileUrl = Some ''https://tech.example.com/authors/ava'',
                   author_Bio = Some ''Engineer and writer.'',
                   author_CreatedAt = ''2020-01-11T10:00:00Z''\<rparr>],
      Categories = [\<lparr>category_CategoryId = 1, category_BlogId = 1,
                      category_Name = ''Programming'', category_Slug = Some ''programming''\<rparr>],
      Posts = [\<lparr>post_PostId = 101, post_BlogId = 1, post_AuthorId = Some 1,
                 post_CategoryId = Some 1, post_Title = ''Designing Resilient Databases'',
                 post_Slug = ''designing-resilient-databases'',
                 post_Content = Some ''A short guide on transactional design, backups, and sharding strategies.'',
                 post_Excerpt = Some ''Resilient DB design fundamentals.'',
                 post_PublishedAt = Some ''2022-07-15T09:00:00Z'', post_IsPublished = 1,
                 post_Views = 1245, post_ExternalId = Some ''ext-101'',
                 post_CreatedAt = ''2022-07-10T08:00:00Z'',
                 post_UpdatedAt = Some ''2022-07-15T09:00:00Z''\<rparr>],
      Tags = [\<lparr>tag_TagId = 1, tag_Name = ''sql''\<rparr>],
      PostTags = [(101, 1)],
      Comments = [\<lparr>comment_CommentId = 1001, comment_PostId = 101,
                    comment_AuthorName = Some ''Jane Doe'',
                    comment_AuthorEmail = Some ''jane@example.com'',
                    comment_Content = ''Great overview'',
                    comment_CreatedAt = ''2022-07-16T08:20:00Z'', comment_IsApproved = 1,
                    comment_ExternalId = Some ''c-ext-1001''\<rparr>]\<rparr>"

text \<open>A request with no query and an empty JSON object as its body.\<close>

definition sample_request :: "string \<Rightarrow> string \<Rightarrow> request" where
  "sample_request m path = \<lparr>meth = m, pathname = path, searchParams = [], json = Some empty_body\<rparr>"

text \<open>A body for \<open>POST /api/simple\<close>.\<close>

definition simple_body :: "string \<Rightarrow> string list \<Rightarrow> json_body" where
  "simple_body url texts = empty_body\<lparr>blogUrl := Some url, postTexts := Arr texts\<rparr>"

text \<open>A clock that prints another second at each reading.\<close>

definition ticking_runtime :: runtime where
  "ticking_runtime = sample_runtime\<lparr>iso := \<lambda>k. ''2024-05-01T10:00:0'' @ show_nat k @ ''.000Z''\<rparr>"

section \<open>Facts about numbers\<close>

text \<open>\<open>parseInt\<close> gives the double nearest to the integer that the digits denote: beyond
  \<open>2^53\<close> not every integer is one, and a run of digits that is long enough gives an
  infinity.\<close>

lemma parseInt_rounds:
  "parseInt ''9007199254740992'' = Num 9007199254740992"
  "parseInt ''9007199254740993'' = Num 9007199254740992"
  "parseInt ''9007199254740995'' = Num 9007199254740996"
  "parseInt ''-9007199254740993'' = Num (- 9007199254740992)"
  "parseInt ''123456789012345678901234567890'' = Num 123456789012345677877719597056"
  "parseInt (replicate 400 (CHR ''9'')) = Infinity"
  "parseInt (CHR ''-'' # replicate 400 (CHR ''9'')) = MinusInfinity"
  by code_simp+

section \<open>Facts about lists and the store\<close>

lemma map_if_absent:
  "find (\<lambda>x. key x = i) xs = None \<Longrightarrow> map (\<lambda>x. if key x = i then f x else x) xs = xs"
  by (induction xs) (auto split: if_splits)

lemma filter_absent: "find (\<lambda>x. key x = i) xs = None \<Longrightarrow> filter (\<lambda>x. key x \<noteq> i) xs = xs"
  by (induction xs) (auto split: if_splits)

lemma absent_no_row: "find (\<lambda>x. key x = i) xs = None \<Longrightarrow> \<not> (\<exists>x \<in> set xs. key x = i)"
  by (simp add: find_None_iff)

lemma update_blog_absent: "select_blog d i = None \<Longrightarrow> update_blog d i n s de u = Some d"
  unfolding select_blog_def update_blog_def
  by (simp add: map_if_absent absent_no_row)

lemma update_author_absent: "select_author d i = None \<Longrightarrow> update_author d i bl n e p bi = Some d"
  unfolding select_author_def update_author_def
  by (simp add: map_if_absent absent_no_row)

lemma update_category_absent: "select_category d i = None \<Longrightarrow> update_category d i bl n s = Some d"
  unfolding select_category_def update_category_def
  by (simp add: map_if_absent absent_no_row)

lemma update_post_absent: "select_post d i = None \<Longrightarrow> update_post d i row = Some d"
  unfolding select_post_def update_post_def
  by (simp add: map_if_absent absent_no_row)

lemma update_tag_absent: "select_tag d i = None \<Longrightarrow> update_tag d i n = Some d"
  unfolding select_tag_def update_tag_def
  by (simp add: map_if_absent absent_no_row)

lemma update_comment_absent: "select_comment d i = None \<Longrightarrow> update_comment d i row = Some d"
  unfolding select_comment_def update_comment_def
  by (simp add: map_if_absent absent_no_row)

lemma delete_blog_cases:
  "delete_blog d i = None \<longleftrightarrow> delete_refused ''blogs'' i d"
  "select_blog d i = None \<Longrightarrow> delete_blog d i = Some d"
  by (auto simp: delete_blog_def delete_refused_def select_blog_def find_None_iff Let_def split: if_splits)

lemma delete_author_cases:
  "delete_author d i = None \<longleftrightarrow> delete_refused ''authors'' i d"
  "select_author d i = None \<Longrightarrow> delete_author d i = Some d"
  by (auto simp: delete_author_def delete_refused_def select_author_def find_None_iff filter_absent)

lemma delete_category_cases:
  "delete_category d i = None \<longleftrightarrow> delete_refused ''categories'' i d"
  "select_category d i = None \<Longrightarrow> delete_category d i = Some d"
  by (auto simp: delete_category_def delete_refused_def select_category_def find_None_iff filter_absent)

lemma delete_post_cases:
  "delete_post d i = None \<longleftrightarrow> delete_refused ''posts'' i d"
  "select_post d i = None \<Longrightarrow> delete_post d i = Some d"
  by (auto simp: delete_post_def delete_refused_def select_post_def find_None_iff)

lemma delete_tag_cases:
  "delete_tag d i = None \<longleftrightarrow> delete_refused ''tags'' i d"
  "select_tag d i = None \<Longrightarrow> delete_tag d i = Some d"
  by (auto simp: delete_tag_def delete_refused_def select_tag_def find_None_iff)

lemma delete_comment_cases:
  "delete_comment d i = None \<longleftrightarrow> delete_refused ''comments'' i d"
  "select_comment d i = None \<Longrightarrow> delete_comment d i = Some d"
  by (auto simp: delete_comment_def delete_refused_def select_comment_def filter_absent)

section \<open>Facts about the router\<close>

lemma segs_simple: "pathSegments ''/api/simple'' = [''api'', ''simple'']"
  by (simp add: pathSegments_def)

lemma route_simple:
  "route rt [''api'', ''simple''] req d = catchInternal (handleSimplePost rt (meth req) (json req) d)"
  by (simp add: route_def nth_opt_def Let_def)

lemma route_with_id:
  "route rt [''api'', ''blogs'', seg] req d =
     catchInternal (handleBlogs rt (meth req) (Some (parseInt seg)) (json req) d)"
  "route rt [''api'', ''authors'', seg] req d =
     catchInternal (handleAuthors rt (meth req) (Some (parseInt seg)) (json req) d)"
  "route rt [''api'', ''categories'', seg] req d =
     catchInternal (handleCategories rt (meth req) (Some (parseInt seg)) (json req) d)"
  "route rt [''api'', ''posts'', seg] req d =
     catchInternal (handlePosts rt (meth req) (Some (parseInt seg)) (json req) (searchParams req) d)"
  "route rt [''api'', ''tags'', seg] req d =
     catchInternal (handleTags rt (meth req) (Some (parseInt seg)) (json req) d)"
  "route rt [''api'', ''comments'', seg] req d =
     catchInternal (handleComments rt (meth req) (Some (parseInt seg)) (json req) (searchParams req) d)"
  by (simp_all add: route_def nth_opt_def Let_def)


lemma resource_cases:
  assumes "resource \<in> set resources"
    and "resource = ''blogs'' \<Longrightarrow> P" and "resource = ''authors'' \<Longrightarrow> P"
    and "resource = ''categories'' \<Longrightarrow> P" and "resource = ''posts'' \<Longrightarrow> P"
    and "resource = ''tags'' \<Longrightarrow> P" and "resource = ''comments'' \<Longrightarrow> P"
  shows P
proof -
  from assms(1) have "resource = ''blogs'' \<or> resource = ''authors'' \<or> resource = ''categories'' \<or>
      resource = ''posts'' \<or> resource = ''tags'' \<or> resource = ''comments''"
    by (simp add: resources_def)
  then show ?thesis
    by (elim disjE) (rule assms(2-7), assumption)+
qed

section \<open>Validation of the simple-post request\<close>

text \<open>Claim C5, as the code has it. A \<open>POST /api/simple\<close> whose body is JSON other than
  \<open>null\<close> and has no \<open>blogUrl\<close> (or an empty one), no \<open>postTexts\<close>, a \<open>postTexts\<close> that is no
  array, or an empty \<open>postTexts\<close> array is answered with status 400. One whose body is
  empty, is no JSON or is \<open>null\<close> is answered with status 500: \<open>request.json()\<close> or the
  reading of \<open>blogUrl\<close> throws inside the \<open>try\<close> block (lines 929 to 934), and its \<open>catch\<close>
  (lines 1086 to 1089) answers \<open>Failed to create posts\<close>. In both cases the store is left
  as it was.\<close>

theorem simple_validation_no_writes:
  assumes "pathname req = ''/api/simple''" and "meth req = ''POST''"
    and "case json req of
           None \<Rightarrow> True
         | Some body \<Rightarrow>
             orNull (blogUrl body) = None \<or> postTexts body = Absent \<or>
             postTexts body = NotArray \<or> postTexts body = Arr []"
  shows "status (fst (handleRequest rt req d)) = (case json req of None \<Rightarrow> 500 | Some body \<Rightarrow> 400) \<and>
         snd (handleRequest rt req d) = d"
proof (cases "json req")
  case None
  with assms(1,2) show ?thesis
    by (simp add: handleRequest_def segs_simple route_simple catchInternal_def handleSimplePost_def
        simplePostTry_def createErrorResponse_def)
next
  case (Some body)
  with assms show ?thesis
    by (auto simp: handleRequest_def segs_simple route_simple catchInternal_def handleSimplePost_def
        simplePostTry_def createErrorResponse_def
        split: option.splits postTexts_field.splits)
qed

theorem simple_validation_no_writes_witness:
  "status (fst (handleRequest sample_runtime
       ((sample_request ''POST'' ''/api/simple'')\<lparr>json := Some (simple_body ''https://myblog.com'' [])\<rparr>)
       seed_db)) = 400 \<and>
   snd (handleRequest sample_runtime
       ((sample_request ''POST'' ''/api/simple'')\<lparr>json := Some (simple_body ''https://myblog.com'' [])\<rparr>)
       seed_db) = seed_db \<and>
   status (fst (handleRequest sample_runtime
       ((sample_request ''POST'' ''/api/simple'')\<lparr>json := Some (empty_body\<lparr>postTexts := Arr [''Hello'']\<rparr>)\<rparr>)
       seed_db)) = 400 \<and>
   snd (handleRequest sample_runtime
       ((sample_request ''POST'' ''/api/simple'')\<lparr>json := Some (empty_body\<lparr>postTexts := Arr [''Hello'']\<rparr>)\<rparr>)
       seed_db) = seed_db \<and>
   status (fst (handleRequest sample_runtime
       ((sample_request ''POST'' ''/api/simple'')\<lparr>json := None\<rparr>) seed_db)) = 500 \<and>
   snd (handleRequest sample_runtime
       ((sample_request ''POST'' ''/api/simple'')\<lparr>json := None\<rparr>) seed_db) = seed_db"
proof -
  have 1: "status (fst (handleRequest sample_runtime
       ((sample_request ''POST'' ''/api/simple'')\<lparr>json := Some (simple_body ''https://myblog.com'' [])\<rparr>)
       seed_db)) = 400 \<and>
   snd (handleRequest sample_runtime
       ((sample_request ''POST'' ''/api/simple'')\<lparr>json := Some (simple_body ''https://myblog.com'' [])\<rparr>)
       seed_db) = seed_db"
    using simple_validation_no_writes[where rt = sample_runtime and d = seed_db and
        req = "(sample_request ''POST'' ''/api/simple'')\<lparr>json := Some (simple_body ''https://myblog.com'' [])\<rparr>"]
    by (simp add: sample_request_def simple_body_def)
  have 2: "status (fst (handleRequest sample_runtime
       ((sample_request ''POST'' ''/api/simple'')\<lparr>json := Some (empty_body\<lparr>postTexts := Arr [''Hello'']\<rparr>)\<rparr>)
       seed_db)) = 400 \<and>
   snd (handleRequest sample_runtime
       ((sample_request ''POST'' ''/api/simple'')\<lparr>json := Some (empty_body\<lparr>postTexts := Arr [''Hello'']\<rparr>)\<rparr>)
       seed_db) = seed_db"
    using simple_validation_no_writes[where rt = sample_runtime and d = seed_db and
        req = "(sample_request ''POST'' ''/api/simple'')\<lparr>json := Some (empty_body\<lparr>postTexts := Arr [''Hello'']\<rparr>)\<rparr>"]
    by (simp add: sample_request_def empty_body_def orNull_def)
  have 3: "status (fst (handleRequest sample_runtime
       ((sample_request ''POST'' ''/api/simple'')\<lparr>json := None\<rparr>) seed_db)) = 500 \<and>
   snd (handleRequest sample_runtime
       ((sample_request ''POST'' ''/api/simple'')\<lparr>json := None\<rparr>) seed_db) = seed_db"
    using simple_validation_no_writes[where rt = sample_runtime and d = seed_db and
        req = "(sample_request ''POST'' ''/api/simple'')\<lparr>json := None\<rparr>"]
    by (simp add: sample_request_def)
  from 1 2 3 show ?thesis by (intro conjI) (erule conjunct1 conjunct2)+
qed

text \<open>The claim as it is stated fails: a \<open>POST /api/simple\<close> with a body that is no JSON
  has neither \<open>blogUrl\<close> nor \<open>postTexts\<close>, and is answered with status 500, not 400.\<close>

theorem simple_unparsable_body_counterexample:
  "json ((sample_request ''POST'' ''/api/simple'')\<lparr>json := None\<rparr>) = None \<and>
   handleRequest sample_runtime ((sample_request ''POST'' ''/api/simple'')\<lparr>json := None\<rparr>) seed_db =
     (\<lparr>status = 500, payload = JError ''Failed to create posts''\<rparr>, seed_db)"
  by code_simp

section \<open>An update of a row that is not there\<close>

lemma refExistsD: "refExists ref found \<Longrightarrow> \<exists>k. orNullNum ref = Some k \<and> found k"
  by (auto simp: refExists_def split: option.splits)

lemma put_blogs:
  assumes "select_blog d i = None" "i \<noteq> 0" "orNull (Name b) \<noteq> None" "orNull (Slug b) \<noteq> None"
  shows "handleBlogs rt ''PUT'' (Some (Num i)) (Some b) d = (Some \<lparr>status = 200, payload = JNull\<rparr>, d)"
proof -
  from assms obtain n s where "orNull (Name b) = Some n" "orNull (Slug b) = Some s" by auto
  with assms(1,2) show ?thesis
    by (simp add: handleBlogs_def update_blog_absent createSuccessResponse_def orNullRow_def)
qed

lemma put_authors:
  assumes "select_author d i = None" "i \<noteq> 0" "orNull (Name b) \<noteq> None"
    "refExists (BlogId b) (\<lambda>k. select_blog d k \<noteq> None)"
  shows "handleAuthors rt ''PUT'' (Some (Num i)) (Some b) d = (Some \<lparr>status = 200, payload = JNull\<rparr>, d)"
proof -
  from assms(3) obtain n where "orNull (Name b) = Some n" by auto
  moreover from refExistsD[OF assms(4)] obtain k row where
    "orNullNum (BlogId b) = Some k" "select_blog d k = Some row"
    by auto
  ultimately show ?thesis using assms(1,2)
    by (simp add: handleAuthors_def update_author_absent createSuccessResponse_def orNullRow_def)
qed

lemma put_categories:
  assumes "select_category d i = None" "i \<noteq> 0" "orNull (Name b) \<noteq> None"
    "refExists (BlogId b) (\<lambda>k. select_blog d k \<noteq> None)"
  shows "handleCategories rt ''PUT'' (Some (Num i)) (Some b) d = (Some \<lparr>status = 200, payload = JNull\<rparr>, d)"
proof -
  from assms(3) obtain n where "orNull (Name b) = Some n" by auto
  moreover from refExistsD[OF assms(4)] obtain k row where
    "orNullNum (BlogId b) = Some k" "select_blog d k = Some row"
    by auto
  ultimately show ?thesis using assms(1,2)
    by (simp add: handleCategories_def update_category_absent createSuccessResponse_def orNullRow_def)
qed

lemma put_posts:
  assumes "select_post d i = None" "i \<noteq> 0" "orNull (Title b) \<noteq> None" "orNull (Slug b) \<noteq> None"
    "refExists (BlogId b) (\<lambda>k. select_blog d k \<noteq> None)"
    "refExistsIfGiven (AuthorId b) (\<lambda>k. select_author d k \<noteq> None)"
    "refExistsIfGiven (CategoryId b) (\<lambda>k. select_category d k \<noteq> None)"
    "tags b = None"
  shows "handlePosts rt ''PUT'' (Some (Num i)) (Some b) ps d = (Some \<lparr>status = 200, payload = JNull\<rparr>, d)"
proof -
  from assms(3,4) obtain t s where "orNull (Title b) = Some t" "orNull (Slug b) = Some s" by auto
  moreover from refExistsD[OF assms(5)] obtain k row where
    "orNullNum (BlogId b) = Some k" "select_blog d k = Some row"
    by auto
  moreover from assms(6) have
    "\<not> (case orNullNum (AuthorId b) of None \<Rightarrow> False | Some a \<Rightarrow> select_author d a = None)"
    by (simp add: refExistsIfGiven_def split: option.splits)
  moreover from assms(7) have
    "\<not> (case orNullNum (CategoryId b) of None \<Rightarrow> False | Some a \<Rightarrow> select_category d a = None)"
    by (simp add: refExistsIfGiven_def split: option.splits)
  ultimately show ?thesis using assms(1,2,8)
    by (simp add: handlePosts_def update_post_absent createSuccessResponse_def orNullRow_def)
qed

lemma put_tags:
  assumes "select_tag d i = None" "i \<noteq> 0" "orNull (Name b) \<noteq> None"
    "find (\<lambda>t. Some (tag_Name t) = orNull (Name b) \<and> tag_TagId t \<noteq> i) (Tags d) = None"
  shows "handleTags rt ''PUT'' (Some (Num i)) (Some b) d = (Some \<lparr>status = 200, payload = JNull\<rparr>, d)"
proof -
  from assms(3) obtain n where n: "orNull (Name b) = Some n" by auto
  with assms(4) have "find (\<lambda>t. tag_Name t = n \<and> tag_TagId t \<noteq> i) (Tags d) = None" by simp
  with n show ?thesis using assms(1,2)
    by (simp add: handleTags_def update_tag_absent createSuccessResponse_def orNullRow_def)
qed

lemma put_comments:
  assumes "select_comment d i = None" "i \<noteq> 0" "orNull (Content b) \<noteq> None"
    "refExists (PostId b) (\<lambda>k. select_post d k \<noteq> None)"
  shows "handleComments rt ''PUT'' (Some (Num i)) (Some b) ps d = (Some \<lparr>status = 200, payload = JNull\<rparr>, d)"
proof -
  from assms(3) obtain n where "orNull (Content b) = Some n" by auto
  moreover from refExistsD[OF assms(4)] obtain k row where
    "orNullNum (PostId b) = Some k" "select_post d k = Some row"
    by auto
  ultimately show ?thesis using assms(1,2)
    by (simp add: handleComments_def update_comment_absent createSuccessResponse_def orNullRow_def)
qed

text \<open>No branch for \<open>PUT\<close> looks whether the row to update is there. On each of the six
  resources a \<open>PUT\<close> whose path id parses to a nonzero integer that is the key of no row,
  with a body that passes the checks of the handler, runs an \<open>UPDATE\<close> that changes no
  row, reads the row again, finds none, and answers with status 200 and the body \<open>null\<close>
  where a not-found error is due.\<close>

lemma put_absent_row_unchecked:
  assumes "pathSegments (pathname req) = [''api'', resource, seg]"
    and "parseInt seg = Num i" and "i \<noteq> 0"
    and "meth req = ''PUT''" and "json req = Some b"
    and "resource \<in> set resources" and "\<not> row_exists resource i d"
    and "put_body_accepted resource i b d"
  shows "handleRequest rt req d = (\<lparr>status = 200, payload = JNull\<rparr>, d)"
proof -
  have hr: "handleRequest rt req d = route rt [''api'', resource, seg] req d"
    using assms(1) by (simp add: handleRequest_def)
  have c1: ?thesis if r: "resource = ''blogs''"
  proof -
    from assms(7,8) have "handleBlogs rt ''PUT'' (Some (Num i)) (Some b) d =
        (Some \<lparr>status = 200, payload = JNull\<rparr>, d)"
      unfolding r by (intro put_blogs assms(3)) (simp_all add: row_exists_def put_body_accepted_def)
    then show ?thesis by (simp add: hr r route_with_id assms(2,4,5) catchInternal_def)
  qed
  have c2: ?thesis if r: "resource = ''authors''"
  proof -
    from assms(7,8) have "handleAuthors rt ''PUT'' (Some (Num i)) (Some b) d =
        (Some \<lparr>status = 200, payload = JNull\<rparr>, d)"
      unfolding r by (intro put_authors assms(3)) (simp_all add: row_exists_def put_body_accepted_def)
    then show ?thesis by (simp add: hr r route_with_id assms(2,4,5) catchInternal_def)
  qed
  have c3: ?thesis if r: "resource = ''categories''"
  proof -
    from assms(7,8) have "handleCategories rt ''PUT'' (Some (Num i)) (Some b) d =
        (Some \<lparr>status = 200, payload = JNull\<rparr>, d)"
      unfolding r by (intro put_categories assms(3)) (simp_all add: row_exists_def put_body_accepted_def)
    then show ?thesis by (simp add: hr r route_with_id assms(2,4,5) catchInternal_def)
  qed
  have c4: ?thesis if r: "resource = ''posts''"
  proof -
    from assms(7,8) have "handlePosts rt ''PUT'' (Some (Num i)) (Some b) (searchParams req) d =
        (Some \<lparr>status = 200, payload = JNull\<rparr>, d)"
      unfolding r by (intro put_posts assms(3)) (simp_all add: row_exists_def put_body_accepted_def)
    then show ?thesis by (simp add: hr r route_with_id assms(2,4,5) catchInternal_def)
  qed
  have c5: ?thesis if r: "resource = ''tags''"
  proof -
    from assms(7,8) have "handleTags rt ''PUT'' (Some (Num i)) (Some b) d =
        (Some \<lparr>status = 200, payload = JNull\<rparr>, d)"
      unfolding r by (intro put_tags assms(3)) (simp_all add: row_exists_def put_body_accepted_def)
    then show ?thesis by (simp add: hr r route_with_id assms(2,4,5) catchInternal_def)
  qed
  have c6: ?thesis if r: "resource = ''comments''"
  proof -
    from assms(7,8) have "handleComments rt ''PUT'' (Some (Num i)) (Some b) (searchParams req) d =
        (Some \<lparr>status = 200, payload = JNull\<rparr>, d)"
      unfolding r by (intro put_comments assms(3)) (simp_all add: row_exists_def put_body_accepted_def)
    then show ?thesis by (simp add: hr r route_with_id assms(2,4,5) catchInternal_def)
  qed
  show ?thesis
    by (rule resource_cases[OF assms(6)]) (rule c1 c2 c3 c4 c5 c6, assumption)+
qed

text \<open>Claim C6 fails on the code, and the fault is in the code. The documentation of the
  API describes \<open>PUT /api/blogs/{id}\<close> as the update of an existing blog and lists the
  answer 404, \<open>Not Found (resource doesn't exist)\<close>; for a blog that does not exist, \<open>GET\<close>
  on the same path gives that answer. \<open>PUT\<close> does not: no blog of the seed data has the key
  5, and \<open>PUT /api/blogs/5\<close> with a name and a slug is answered with status 200 and the
  body \<open>null\<close>, as if a blog had been updated, while the store stays as it was.\<close>

theorem put_absent_blog_reports_success:
  "select_blog seed_db 5 = None \<and>
   handleRequest sample_runtime (sample_request ''GET'' ''/api/blogs/5'') seed_db =
     (\<lparr>status = 404, payload = JError ''Blog not found''\<rparr>, seed_db) \<and>
   handleRequest sample_runtime
     ((sample_request ''PUT'' ''/api/blogs/5'')\<lparr>json := Some (empty_body\<lparr>Name := Some ''Renamed'', Slug := Some ''renamed''\<rparr>)\<rparr>)
     seed_db = (\<lparr>status = 200, payload = JNull\<rparr>, seed_db)"
  by code_simp

section \<open>A path id that is no true number\<close>










section \<open>Deletion\<close>

lemma delete_handlers:
  assumes "i \<noteq> 0"
  shows "catchInternal (handleBlogs rt ''DELETE'' (Some (Num i)) b d) =
           deleteOutcome ''blogs'' (delete_blog d i) d"
    "catchInternal (handleAuthors rt ''DELETE'' (Some (Num i)) b d) =
           deleteOutcome ''authors'' (delete_author d i) d"
    "catchInternal (handleCategories rt ''DELETE'' (Some (Num i)) b d) =
           deleteOutcome ''categories'' (delete_category d i) d"
    "catchInternal (handlePosts rt ''DELETE'' (Some (Num i)) b ps d) =
           deleteOutcome ''posts'' (delete_post d i) d"
    "catchInternal (handleTags rt ''DELETE'' (Some (Num i)) b d) =
           deleteOutcome ''tags'' (delete_tag d i) d"
    "catchInternal (handleComments rt ''DELETE'' (Some (Num i)) b ps d) =
           deleteOutcome ''comments'' (delete_comment d i) d"
  using assms
  by (simp_all add: handleBlogs_def handleAuthors_def handleCategories_def handlePosts_def
      handleTags_def handleComments_def catchInternal_def deleteOutcome_def deletedMessage_def
      split: option.splits)

text \<open>A path id whose digits are beyond the range of a double parses to an infinity, which
  is true and is the key of no row: the \<open>DELETE\<close> changes nothing and is confirmed.\<close>

lemma delete_infinite_id:
  assumes "pathSegments (pathname req) = [''api'', resource, seg]"
    and "parseInt seg = Infinity \<or> parseInt seg = MinusInfinity"
    and "meth req = ''DELETE''" and "resource \<in> set resources"
  shows "handleRequest rt req d = (createSuccessResponse (JMessage (deletedMessage resource)), d)"
proof -
  have hr: "handleRequest rt req d = route rt [''api'', resource, seg] req d"
    using assms(1) by (simp add: handleRequest_def)
  have c: ?thesis if r: "resource = ''blogs'' \<or> resource = ''authors'' \<or> resource = ''categories'' \<or>
      resource = ''posts'' \<or> resource = ''tags'' \<or> resource = ''comments''"
    using r assms(2,3)
    by (elim disjE)
       (simp_all add: hr route_with_id handleBlogs_def handleAuthors_def handleCategories_def
         handlePosts_def handleTags_def handleComments_def catchInternal_def deletedMessage_def)
  show ?thesis
    by (rule resource_cases[OF assms(4)]) (rule c, simp)+
qed

text \<open>Claim C9, as the code has it. \<open>DELETE\<close> on any of the six resources with a path id
  that parses to a nonzero integer \<open>i\<close> (the double that \<open>parseInt\<close> gives, which is the
  integer written in the path up to \<open>2^53\<close> and the nearest double beyond) makes no check
  that the row exists. When no row has the id \<open>i\<close>, the response is
  the confirmation with status 200 and the store stays as it was. When the store refuses
  the statement, which it does exactly when a post still refers to the author or the
  category to be deleted (or to one of a blog to be deleted, from another blog), the row
  exists, the response is status 500 and the store stays as it was. In every other case
  the response is the confirmation with status 200; for posts, tags and comments that is
  every case.\<close>

theorem delete_without_existence_check:
  assumes "pathSegments (pathname req) = [''api'', resource, seg]"
    and "parseInt seg = Num i" and "i \<noteq> 0"
    and "meth req = ''DELETE''" and "resource \<in> set resources"
  shows "(if delete_refused resource i d
          then handleRequest rt req d = (createErrorResponse ''Internal server error'' 500, d)
          else fst (handleRequest rt req d) =
                 createSuccessResponse (JMessage (deletedMessage resource))) \<and>
         (delete_refused resource i d \<longrightarrow>
            row_exists resource i d \<and> resource \<in> set [''blogs'', ''authors'', ''categories'']) \<and>
         (\<not> row_exists resource i d \<longrightarrow>
            handleRequest rt req d =
              (createSuccessResponse (JMessage (deletedMessage resource)), d))"
proof -
  have hr: "handleRequest rt req d = route rt [''api'', resource, seg] req d"
    using assms(1) by (simp add: handleRequest_def)
  note dh = delete_handlers[OF assms(3)]
  have c1: ?thesis if r: "resource = ''blogs''"
    using delete_blog_cases[of d i]
    by (auto simp: hr r route_with_id assms(2,4) dh deleteOutcome_def row_exists_def
        delete_refused_def split: option.splits)
  have c2: ?thesis if r: "resource = ''authors''"
    using delete_author_cases[of d i]
    by (auto simp: hr r route_with_id assms(2,4) dh deleteOutcome_def row_exists_def
        delete_refused_def split: option.splits)
  have c3: ?thesis if r: "resource = ''categories''"
    using delete_category_cases[of d i]
    by (auto simp: hr r route_with_id assms(2,4) dh deleteOutcome_def row_exists_def
        delete_refused_def split: option.splits)
  have c4: ?thesis if r: "resource = ''posts''"
    using delete_post_cases[of d i]
    by (auto simp: hr r route_with_id assms(2,4) dh deleteOutcome_def row_exists_def
        delete_refused_def split: option.splits)
  have c5: ?thesis if r: "resource = ''tags''"
    using delete_tag_cases[of d i]
    by (auto simp: hr r route_with_id assms(2,4) dh deleteOutcome_def row_exists_def
        delete_refused_def split: option.splits)
  have c6: ?thesis if r: "resource = ''comments''"
    using delete_comment_cases[of d i]
    by (auto simp: hr r route_with_id assms(2,4) dh deleteOutcome_def row_exists_def
        delete_refused_def split: option.splits)
  show ?thesis
    by (rule resource_cases[OF assms(5)]) (rule c1 c2 c3 c4 c5 c6, assumption)+
qed

theorem delete_without_existence_check_witness:
  "fst (handleRequest sample_runtime (sample_request ''DELETE'' ''/api/posts/101'') seed_db) =
     createSuccessResponse (JMessage ''Post deleted successfully'') \<and>
   handleRequest sample_runtime (sample_request ''DELETE'' ''/api/posts/102'') seed_db =
     (createSuccessResponse (JMessage ''Post deleted successfully''), seed_db) \<and>
   handleRequest sample_runtime (sample_request ''DELETE'' ''/api/posts/9007199254740993'') seed_db =
     (createSuccessResponse (JMessage ''Post deleted successfully''), seed_db)"
proof -
  have 7: "pathSegments (pathname (sample_request ''DELETE'' ''/api/posts/9007199254740993'')) =
      [''api'', ''posts'', ''9007199254740993'']"
    by (simp add: sample_request_def pathSegments_def)
  have 8: "parseInt ''9007199254740993'' = Num 9007199254740992" by code_simp
  have 9: "\<not> row_exists ''posts'' 9007199254740992 seed_db" by code_simp
  have 1: "pathSegments (pathname (sample_request ''DELETE'' ''/api/posts/101'')) = [''api'', ''posts'', ''101'']"
    by (simp add: sample_request_def pathSegments_def)
  have 2: "parseInt ''101'' = Num 101" by code_simp
  have 3: "pathSegments (pathname (sample_request ''DELETE'' ''/api/posts/102'')) = [''api'', ''posts'', ''102'']"
    by (simp add: sample_request_def pathSegments_def)
  have 4: "parseInt ''102'' = Num 102" by code_simp
  have 5: "\<not> row_exists ''posts'' 102 seed_db" by code_simp
  have 6: "\<not> delete_refused ''posts'' 101 seed_db" by (simp add: delete_refused_def)
  have m: "meth (sample_request ''DELETE'' p) = ''DELETE''" for p by (simp add: sample_request_def)
  have r: "''posts'' \<in> set resources" by (simp add: resources_def)
  show ?thesis
    using delete_without_existence_check[OF 1 2 _ m r, where rt = sample_runtime and d = seed_db]
      delete_without_existence_check[OF 3 4 _ m r, where rt = sample_runtime and d = seed_db]
      delete_without_existence_check[OF 7 8 _ m r, where rt = sample_runtime and d = seed_db] 5 6 9
    by (simp add: deletedMessage_def)
qed

text \<open>The id that the statement binds is the double: \<open>DELETE /api/tags/9007199254740993\<close>
  deletes the tag with the key \<open>9007199254740992\<close>.\<close>

lemma delete_rounded_id:
  "handleRequest sample_runtime (sample_request ''DELETE'' ''/api/tags/9007199254740993'')
     (empty_db\<lparr>Tags := [\<lparr>tag_TagId = 9007199254740992, tag_Name = ''big''\<rparr>]\<rparr>) =
   (createSuccessResponse (JMessage ''Tag deleted successfully''), empty_db)"
  by code_simp

text \<open>The claim as it is stated fails: author 1 exists and post 101 refers to it, so
  \<open>DELETE /api/authors/1\<close> is answered with status 500, while \<open>DELETE /api/authors/2\<close>, for
  an author that does not exist, is answered with the confirmation and status 200.\<close>

theorem delete_refused_counterexample:
  "select_author seed_db 1 \<noteq> None \<and> select_author seed_db 2 = None \<and>
   fst (handleRequest sample_runtime (sample_request ''DELETE'' ''/api/authors/1'') seed_db) =
     \<lparr>status = 500, payload = JError ''Internal server error''\<rparr> \<and>
   fst (handleRequest sample_runtime (sample_request ''DELETE'' ''/api/authors/2'') seed_db) =
     \<lparr>status = 200, payload = JMessage ''Author deleted successfully''\<rparr>"
  by code_simp

section \<open>The parameter \<open>published\<close>\<close>

lemma map_of_without:
  "map_of (without_param name ps) k = (if k = name then None else map_of ps k)"
  unfolding without_param_def by (induction ps) auto

lemma published_cond:
  "list_all (\<lambda>c. post_holds c p)
     (case orNull v of None \<Rightarrow> []
      | Some published \<Rightarrow> [IsPublishedIs (if published = ''true'' then 1 else 0)]) =
   published_filter v (post_IsPublished p)"
proof (cases v)
  case None
  then show ?thesis by (simp add: orNull_def)
next
  case (Some s)
  show ?thesis
  proof (cases "s = []")
    case True
    with Some show ?thesis by (simp add: orNull_def)
  next
    case False
    with Some have "orNull v = Some s" by (simp add: orNull_def)
    with Some False show ?thesis by simp
  qed
qed

lemma posts_where_published:
  "list_all (\<lambda>c. post_holds c p) (posts_where ps) \<longleftrightarrow>
     published_filter (map_of ps ''published'') (post_IsPublished p) \<and>
     list_all (\<lambda>c. post_holds c p) (posts_where (without_param ''published'' ps))"
proof -
  have o: "map_of (without_param ''published'' ps) ''blog'' = map_of ps ''blog''"
    "map_of (without_param ''published'' ps) ''author'' = map_of ps ''author''"
    "map_of (without_param ''published'' ps) ''category'' = map_of ps ''category''"
    "map_of (without_param ''published'' ps) ''search'' = map_of ps ''search''"
    "map_of (without_param ''published'' ps) ''published'' = None"
    by (simp_all add: map_of_without)
  have n: "orNull None = None" by (simp add: orNull_def)
  show ?thesis
    unfolding posts_where_def o n list_all_append published_cond
    by auto
qed

text \<open>Claim C10. \<open>GET /api/posts\<close> answers with the posts that the other parameters
  select and that pass the filter of \<open>published\<close>, newest first and cut by limit and
  offset: \<open>IsPublished = 1\<close> for the value \<open>true\<close>, \<open>IsPublished = 0\<close> for any other value
  that is not empty, and no filter when the parameter is absent or empty.\<close>

theorem published_param_filter:
  "handlePosts rt ''GET'' None body ps d =
     (case limitOffset (limitParam ps) (offsetParam ps)
             (order_desc post_CreatedAt
                (filter (\<lambda>p. published_filter (map_of ps ''published'') (post_IsPublished p) \<and>
                             list_all (\<lambda>c. post_holds c p) (posts_where (without_param ''published'' ps)))
                   (Posts d))) of
        None \<Rightarrow> (None, d)
      | Some rows \<Rightarrow> (Some (createSuccessResponse (JPosts (map (post_row_of d) rows))), d))"
proof -
  have f: "filter (\<lambda>p. list_all (\<lambda>c. post_holds c p) (posts_where ps)) (Posts d) =
      filter (\<lambda>p. published_filter (map_of ps ''published'') (post_IsPublished p) \<and>
                   list_all (\<lambda>c. post_holds c p) (posts_where (without_param ''published'' ps))) (Posts d)"
    by (rule filter_cong[OF refl]) (rule posts_where_published)
  show ?thesis
    by (simp add: handlePosts_def select_posts_def f split: option.splits)
qed

theorem published_param_filter_witness:
  "handlePosts sample_runtime ''GET'' None None [(''published'', ''false'')] seed_db =
     (Some (createSuccessResponse (JPosts [])), seed_db) \<and>
   handlePosts sample_runtime ''GET'' None None [(''published'', ''true'')] seed_db =
     (Some (createSuccessResponse (JPosts (map (post_row_of seed_db) (Posts seed_db)))), seed_db) \<and>
   handlePosts sample_runtime ''GET'' None None [(''published'', '''')] seed_db =
     (Some (createSuccessResponse (JPosts (map (post_row_of seed_db) (Posts seed_db)))), seed_db)"
proof -
  have p: "parseInt ''50'' = Num 50" "parseInt ''0'' = Num 0" by code_simp+
  have l: "limitParam [(''published'', v)] = Num 50" "offsetParam [(''published'', v)] = Num 0" for v
    by (simp_all add: limitParam_def offsetParam_def orNull_def p)
  have w: "posts_where (without_param ''published'' [(''published'', v)]) = []" for v
    by (simp add: posts_where_def without_param_def orNull_def)
  show ?thesis
    using published_param_filter[where rt = sample_runtime and body = None and ps = "[(''published'', ''false'')]" and d = seed_db]
      published_param_filter[where rt = sample_runtime and body = None and ps = "[(''published'', ''true'')]" and d = seed_db]
      published_param_filter[where rt = sample_runtime and body = None and ps = "[(''published'', '''')]" and d = seed_db]
    by (simp add: l w limitOffset_def order_desc_def seed_db_def)
qed

section \<open>The loop of the simple-post workflow\<close>

lemma insert_post_effect:
  "insert_post d row = Some (rowid, d') \<Longrightarrow>
     d' = d\<lparr>Posts := Posts d @ [row\<lparr>post_PostId := rowid\<rparr>]\<rparr>"
  by (auto simp: insert_post_def Let_def split: if_splits)

lemma createPosts_effect:
  "createPosts rt b a c i k texts cp d = (Some cp', d') \<Longrightarrow>
     \<exists>rows. d' = d\<lparr>Posts := Posts d @ rows\<rparr> \<and>
       map post_Title rows = map (\<lambda>(j, t). postTitle j t) (entriesFrom i texts) \<and>
       map post_Excerpt rows = map (\<lambda>(j, t). Some (postExcerpt t)) (entriesFrom i texts) \<and>
       map post_Content rows = map (\<lambda>(j, t). Some t) (entriesFrom i texts)"
proof (induction texts arbitrary: i k cp d)
  case Nil
  then show ?case by simp
next
  case (Cons t ts)
  show ?case
  proof (cases "trim t = []")
    case True
    with Cons.prems have "createPosts rt b a c (i + 1) k ts cp d = (Some cp', d')" by simp
    from Cons.IH[OF this] True show ?thesis by simp
  next
    case False
    let ?row = "simplePostRow rt b a c i k (trim t)"
    from Cons.prems False obtain rowid d1 where
      ins: "insert_post d ?row = Some (rowid, d1)" and
      rest: "createPosts rt b a c (i + 1) (k + 1) ts
               (cp @ [map_option (post_row_of d1) (select_post d1 rowid)]) d1 = (Some cp', d')"
      by (auto simp: Let_def split: option.splits)
    from insert_post_effect[OF ins]
    have d1: "d1 = d\<lparr>Posts := Posts d @ [?row\<lparr>post_PostId := rowid\<rparr>]\<rparr>" .
    from Cons.IH[OF rest] obtain rows where
      r: "d' = d1\<lparr>Posts := Posts d1 @ rows\<rparr>"
         "map post_Title rows = map (\<lambda>(j, t). postTitle j t) (entriesFrom (i + 1) ts)"
         "map post_Excerpt rows = map (\<lambda>(j, t). Some (postExcerpt t)) (entriesFrom (i + 1) ts)"
         "map post_Content rows = map (\<lambda>(j, t). Some t) (entriesFrom (i + 1) ts)"
      by blast
    have "d' = d\<lparr>Posts := Posts d @ (?row\<lparr>post_PostId := rowid\<rparr> # rows)\<rparr>"
      using r(1) d1 by simp
    moreover have "post_Title (?row\<lparr>post_PostId := rowid\<rparr>) = postTitle i (trim t)"
      "post_Excerpt (?row\<lparr>post_PostId := rowid\<rparr>) = Some (postExcerpt (trim t))"
      "post_Content (?row\<lparr>post_PostId := rowid\<rparr>) = Some (trim t)"
      by (simp_all add: simplePostRow_def Let_def)
    ultimately show ?thesis using r(2-4) False
      by (intro exI[of _ "?row\<lparr>post_PostId := rowid\<rparr> # rows"]) simp
  qed
qed

lemma resolveBlog_posts: "resolveBlog rt url d = (x, d') \<Longrightarrow> Posts d' = Posts d"
  by (auto simp: resolveBlog_def insert_blog_def Let_def split: option.splits if_splits)

lemma resolveAuthor_posts: "resolveAuthor rt url b k d = (x, d') \<Longrightarrow> Posts d' = Posts d"
  by (auto simp: resolveAuthor_def insert_author_def Let_def split: option.splits if_splits)

lemma resolveCategory_posts: "resolveCategory b d = (x, d') \<Longrightarrow> Posts d' = Posts d"
  by (auto simp: resolveCategory_def insert_category_def Let_def split: option.splits if_splits)

lemma simple_success:
  assumes "handleSimplePost rt ''POST'' (Some body) d = (Some r, d')" and "status r = 200"
  shows "\<exists>url texts blog k1 d1 author k2 d2 category d3 cp.
           orNull (blogUrl body) = Some url \<and> postTexts body = Arr texts \<and> texts \<noteq> [] \<and>
           resolveBlog rt url d = (Some (Some blog, k1), d1) \<and>
           resolveAuthor rt url blog k1 d1 = (Some (Some author, k2), d2) \<and>
           resolveCategory blog d2 = (Some (Some category), d3) \<and>
           createPosts rt blog author category 0 k2 texts [] d3 = (Some cp, d') \<and>
           r = createSuccessResponse (JSimple blog author category (length cp) cp)"
  using assms
  by (auto simp: handleSimplePost_def simplePostTry_def createErrorResponse_def
      split: option.splits prod.splits postTexts_field.splits if_splits)

text \<open>The posts that a successful run of the workflow adds: the rows of \<open>Posts\<close> behind
  those that were there, one for each entry that is not blank, in the order of the
  input.\<close>

lemma simple_new_posts:
  assumes "handleSimplePost rt ''POST'' (Some body) d = (Some r, d')" and "status r = 200"
    and "postTexts body = Arr texts"
  shows "\<exists>rows. Posts d' = Posts d @ rows \<and>
       map post_Title rows = map (\<lambda>(j, t). postTitle j t) (entriesFrom 0 texts) \<and>
       map post_Excerpt rows = map (\<lambda>(j, t). Some (postExcerpt t)) (entriesFrom 0 texts) \<and>
       map post_Content rows = map (\<lambda>(j, t). Some t) (entriesFrom 0 texts)"
proof -
  from simple_success[OF assms(1,2)] assms(3) obtain url blog k1 d1 author k2 d2 category d3 cp where
    s: "resolveBlog rt url d = (Some (Some blog, k1), d1)"
       "resolveAuthor rt url blog k1 d1 = (Some (Some author, k2), d2)"
       "resolveCategory blog d2 = (Some (Some category), d3)"
       "createPosts rt blog author category 0 k2 texts [] d3 = (Some cp, d')"
    by auto
  have p: "Posts d3 = Posts d"
    using resolveBlog_posts[OF s(1)] resolveAuthor_posts[OF s(2)] resolveCategory_posts[OF s(3)]
    by simp
  from createPosts_effect[OF s(4)] obtain rows where
    r: "d' = d3\<lparr>Posts := Posts d3 @ rows\<rparr>"
       "map post_Title rows = map (\<lambda>(j, t). postTitle j t) (entriesFrom 0 texts)"
       "map post_Excerpt rows = map (\<lambda>(j, t). Some (postExcerpt t)) (entriesFrom 0 texts)"
       "map post_Content rows = map (\<lambda>(j, t). Some t) (entriesFrom 0 texts)"
    by blast
  from r(1) p have "Posts d' = Posts d @ rows" by simp
  with r(2-4) show ?thesis by blast
qed

section \<open>Titles\<close>

text \<open>Claim C1, as the code has it. In a run of the workflow that succeeds, the posts
  added are those of the entries of \<open>postTexts\<close> that are not blank, in their order, and
  the title of each is the text of the trimmed entry before its first \<open>.\<close>, \<open>!\<close> or \<open>?\<close>, cut
  to 50 characters and then trimmed of white space, with \<open>...\<close> appended exactly when that
  is 50 characters long and does not end in \<open>...\<close>; when the result is empty, the title is
  \<open>Post\<close> followed by the index of the entry in the input, counted from 1.\<close>

theorem simple_post_titles:
  assumes "handleSimplePost rt ''POST'' (Some body) d = (Some r, d')" and "status r = 200"
    and "postTexts body = Arr texts"
  shows "map post_Title (drop (length (Posts d)) (Posts d')) =
     map (\<lambda>(i, t).
            let title = trim (take 50 (takeWhile (\<lambda>c. \<not> isTerminator c) t));
                title = (if length title = 50 \<and> \<not> endsWith title ''...'' then title @ ''...'' else title)
            in if title = [] then ''Post '' @ show_nat (i + 1) else title)
         (entriesFrom 0 texts)"
proof -
  from simple_new_posts[OF assms] obtain rows where
    "Posts d' = Posts d @ rows"
    "map post_Title rows = map (\<lambda>(j, t). postTitle j t) (entriesFrom 0 texts)"
    by blast
  then show ?thesis by (simp add: postTitle_def)
qed

theorem simple_post_titles_witness:
  "map post_Title (drop (length (Posts seed_db))
      (Posts (snd (handleSimplePost sample_runtime ''POST''
         (Some (simple_body ''https://myblog.com'' [''Hello world. More text here.'', ''   '', ''?!'']))
         seed_db)))) = [''Hello world'', ''Post 3'']"
proof -
  let ?b = "simple_body ''https://myblog.com'' [''Hello world. More text here.'', ''   '', ''?!'']"
  let ?run = "handleSimplePost sample_runtime ''POST'' (Some ?b) seed_db"
  have 1: "?run = (Some (the (fst ?run)), snd ?run)" by code_simp
  have 2: "status (the (fst ?run)) = 200" by code_simp
  have 3: "postTexts ?b = Arr [''Hello world. More text here.'', ''   '', ''?!'']"
    by (simp add: simple_body_def)
  have 4: "map (\<lambda>(i, t).
            let title = trim (take 50 (takeWhile (\<lambda>c. \<not> isTerminator c) t));
                title = (if length title = 50 \<and> \<not> endsWith title ''...'' then title @ ''...'' else title)
            in if title = [] then ''Post '' @ show_nat (i + 1) else title)
         (entriesFrom 0 [''Hello world. More text here.'', ''   '', ''?!'']) = [''Hello world'', ''Post 3'']"
    by code_simp
  show ?thesis
    using simple_post_titles[OF 1 2 3] unfolding 4 .
qed

text \<open>The claim as it is stated fails: for the entry \<open>Hello world . More\<close> the text before
  the first terminator ends in a space, which the code trims and the claim keeps.\<close>

theorem title_untrimmed_counterexample:
  "map post_Title (Posts (snd (handleSimplePost sample_runtime ''POST''
       (Some (simple_body ''https://myblog.com'' [''Hello world . More''])) empty_db))) =
     [''Hello world''] \<and>
   spec_title 0 (trim ''Hello world . More'') = ''Hello world ''"
  by code_simp

section \<open>Excerpts\<close>

text \<open>Claim C2, as the code has it. In a run of the workflow that succeeds, the excerpt
  of the post of an entry whose trimmed text has more than 150 characters is the first 150
  characters of that text, trimmed of white space once more, followed by \<open>...\<close>; the
  excerpt of the post of an entry whose trimmed text has 150 characters or fewer is the
  trimmed text, with no ellipsis.\<close>

theorem simple_post_excerpts:
  assumes "handleSimplePost rt ''POST'' (Some body) d = (Some r, d')" and "status r = 200"
    and "postTexts body = Arr texts"
  shows "map post_Excerpt (drop (length (Posts d)) (Posts d')) =
     map (\<lambda>(i, t). Some (if length t > 150 then trim (take 150 t) @ ''...'' else t))
         (entriesFrom 0 texts)"
proof -
  from simple_new_posts[OF assms] obtain rows where
    "Posts d' = Posts d @ rows"
    "map post_Excerpt rows = map (\<lambda>(j, t). Some (postExcerpt t)) (entriesFrom 0 texts)"
    by blast
  then show ?thesis by (simp add: postExcerpt_def)
qed

theorem simple_post_excerpts_witness:
  "map post_Excerpt (drop (length (Posts seed_db))
      (Posts (snd (handleSimplePost sample_runtime ''POST''
         (Some (simple_body ''https://myblog.com'' ['' Short text. '', replicate 160 CHR ''x'']))
         seed_db)))) = [Some ''Short text.'', Some (replicate 150 CHR ''x'' @ ''...'')]"
proof -
  let ?b = "simple_body ''https://myblog.com'' ['' Short text. '', replicate 160 CHR ''x'']"
  let ?run = "handleSimplePost sample_runtime ''POST'' (Some ?b) seed_db"
  have 1: "?run = (Some (the (fst ?run)), snd ?run)" by code_simp
  have 2: "status (the (fst ?run)) = 200" by code_simp
  have 3: "postTexts ?b = Arr ['' Short text. '', replicate 160 CHR ''x'']"
    by (simp add: simple_body_def)
  have 4: "map (\<lambda>(i, t). Some (if length t > 150 then trim (take 150 t) @ ''...'' else t))
         (entriesFrom 0 ['' Short text. '', replicate 160 CHR ''x'']) =
       [Some ''Short text.'', Some (replicate 150 CHR ''x'' @ ''...'')]"
    by code_simp
  show ?thesis
    using simple_post_excerpts[OF 1 2 3] unfolding 4 .
qed

text \<open>The claim as it is stated fails: in the entry made of 149 letters \<open>a\<close>, a space and
  the letter \<open>b\<close>, the 150th character is the space, which the code trims and the claim
  keeps before the ellipsis.\<close>

theorem excerpt_untrimmed_counterexample:
  "map post_Excerpt (Posts (snd (handleSimplePost sample_runtime ''POST''
       (Some (simple_body ''https://myblog.com'' [replicate 149 CHR ''a'' @ '' b''])) empty_db))) =
     [Some (replicate 149 CHR ''a'' @ ''...'')] \<and>
   spec_excerpt (trim (replicate 149 CHR ''a'' @ '' b'')) = replicate 149 CHR ''a'' @ '' ...''"
  by code_simp

section \<open>Finding or creating the blog, the author and the category\<close>

lemma next_rowid_fresh: "next_rowid ids \<notin> set ids"
proof (cases ids)
  case Nil
  then show ?thesis by (simp add: next_rowid_def)
next
  case (Cons x xs)
  have "fold max xs x = Max (set (x # xs))" by (rule Max.set_eq_fold[symmetric])
  then have "\<forall>y \<in> set ids. y \<le> fold max xs x" using Cons by simp
  then have "fold max xs x + 1 \<notin> set ids" by fastforce
  then show ?thesis using Cons by (simp add: next_rowid_def)
qed

lemma find_snoc:
  "find P (xs @ [y]) = (case find P xs of None \<Rightarrow> (if P y then Some y else None) | Some x \<Rightarrow> Some x)"
  by (induction xs) auto

lemma find_key_snoc_fresh:
  "key y \<notin> set (map key xs) \<Longrightarrow> find (\<lambda>x. key x = key y) (xs @ [y]) = Some y"
  by (induction xs) auto

lemma find_Some_key: "find P xs = Some x \<Longrightarrow> find (\<lambda>y. key y = key x) xs \<noteq> None"
  by (induction xs) (auto split: if_splits)

lemma same_store:
  "\<exists>bs. d = d\<lparr>Blogs := Blogs d @ bs\<rparr>" "\<exists>as. d = d\<lparr>Authors := Authors d @ as\<rparr>"
  "\<exists>cs. d = d\<lparr>Categories := Categories d @ cs\<rparr>"
  by (rule exI[of _ "[]"], simp)+

lemma resolveBlog_result:
  assumes "resolveBlog rt url d = (Some (Some blog, k), d')"
  shows "select_blog_by_url d' url = Some blog"
    and "select_blog d' (blog_BlogId blog) \<noteq> None"
    and "\<exists>bs. d' = d\<lparr>Blogs := Blogs d @ bs\<rparr>"
proof -
  have "select_blog_by_url d' url = Some blog \<and> select_blog d' (blog_BlogId blog) \<noteq> None \<and>
        (\<exists>bs. d' = d\<lparr>Blogs := Blogs d @ bs\<rparr>)"
  proof (cases "select_blog_by_url d url")
    case (Some b)
    with assms have "blog = b" "d' = d" by (simp_all add: resolveBlog_def)
    moreover from Some have "select_blog d (blog_BlogId b) \<noteq> None"
      unfolding select_blog_by_url_def select_blog_def by (rule find_Some_key)
    ultimately show ?thesis using Some same_store[of d] by simp
  next
    case None
    with assms obtain host rowid where
      h: "hostname rt url = Some host" and
      i: "insert_blog d (capitalize (blogName host)) (blogSlug host)
            (Some (''Auto-created blog for '' @ host)) (Some url) (iso rt 0) = Some (rowid, d')" and
      s: "select_blog d' rowid = Some blog"
      by (auto simp: resolveBlog_def split: option.splits)
    let ?new = "\<lparr>blog_BlogId = rowid, blog_Name = capitalize (blogName host),
        blog_Slug = blogSlug host, blog_Description = Some (''Auto-created blog for '' @ host),
        blog_Url = Some url, blog_CreatedAt = iso rt 0\<rparr>"
    from i have r: "rowid = next_rowid (map blog_BlogId (Blogs d))"
      and d': "d' = d\<lparr>Blogs := Blogs d @ [?new]\<rparr>"
      by (auto simp: insert_blog_def Let_def split: if_splits)
    have "blog_BlogId ?new \<notin> set (map blog_BlogId (Blogs d))"
      using next_rowid_fresh[of "map blog_BlogId (Blogs d)"] r by simp
    from find_key_snoc_fresh[of blog_BlogId ?new, OF this]
    have "select_blog d' rowid = Some ?new" by (simp add: select_blog_def d')
    with s have b: "blog = ?new" by simp
    have "select_blog_by_url d' url = Some ?new"
      using None by (simp add: select_blog_by_url_def d' find_snoc)
    with b s d' show ?thesis by auto
  qed
  then show "select_blog_by_url d' url = Some blog" "select_blog d' (blog_BlogId blog) \<noteq> None"
    "\<exists>bs. d' = d\<lparr>Blogs := Blogs d @ bs\<rparr>"
    by blast+
qed

text \<open>The blog that the first step creates when no blog has the URL.\<close>

lemma resolveBlog_created:
  assumes "resolveBlog rt url d = (Some (Some blog, k), d')" and "select_blog_by_url d url = None"
  shows "\<exists>host. hostname rt url = Some host \<and> blog_Slug blog = blogSlug host \<and>
           blog_Name blog = capitalize (blogName host) \<and> blog_Url blog = Some url \<and>
           d' = d\<lparr>Blogs := Blogs d @ [blog]\<rparr>"
proof -
  from assms obtain host rowid where
    h: "hostname rt url = Some host" and
    i: "insert_blog d (capitalize (blogName host)) (blogSlug host)
          (Some (''Auto-created blog for '' @ host)) (Some url) (iso rt 0) = Some (rowid, d')" and
    s: "select_blog d' rowid = Some blog"
    by (auto simp: resolveBlog_def split: option.splits)
  let ?new = "\<lparr>blog_BlogId = rowid, blog_Name = capitalize (blogName host),
      blog_Slug = blogSlug host, blog_Description = Some (''Auto-created blog for '' @ host),
      blog_Url = Some url, blog_CreatedAt = iso rt 0\<rparr>"
  from i have r: "rowid = next_rowid (map blog_BlogId (Blogs d))"
    and d': "d' = d\<lparr>Blogs := Blogs d @ [?new]\<rparr>"
    by (auto simp: insert_blog_def Let_def split: if_splits)
  have "blog_BlogId ?new \<notin> set (map blog_BlogId (Blogs d))"
    using next_rowid_fresh[of "map blog_BlogId (Blogs d)"] r by simp
  from find_key_snoc_fresh[of blog_BlogId ?new, OF this]
  have "select_blog d' rowid = Some ?new" by (simp add: select_blog_def d')
  with s have b: "blog = ?new" by simp
  with h d' show ?thesis by simp
qed

lemma resolveAuthor_result:
  assumes "resolveAuthor rt url blog k d = (Some (Some author, k'), d')"
  shows "select_author_of_blog d' (blog_BlogId blog) = Some author"
    and "select_author d' (author_AuthorId author) \<noteq> None"
    and "\<exists>as. d' = d\<lparr>Authors := Authors d @ as\<rparr>"
proof -
  have "select_author_of_blog d' (blog_BlogId blog) = Some author \<and>
        select_author d' (author_AuthorId author) \<noteq> None \<and>
        (\<exists>as. d' = d\<lparr>Authors := Authors d @ as\<rparr>)"
  proof (cases "select_author_of_blog d (blog_BlogId blog)")
    case (Some a)
    with assms have "author = a" "d' = d" by (simp_all add: resolveAuthor_def)
    moreover from Some have "select_author d (author_AuthorId a) \<noteq> None"
      unfolding select_author_of_blog_def select_author_def by (rule find_Some_key)
    ultimately show ?thesis using Some same_store[of d] by simp
  next
    case None
    with assms obtain host rowid where
      i: "insert_author d (blog_BlogId blog) ''Default Author'' (Some (''author@'' @ host)) None
            (Some ''Auto-created default author'') (iso rt k) = Some (rowid, d')" and
      s: "select_author d' rowid = Some author"
      by (auto simp: resolveAuthor_def split: option.splits)
    let ?new = "\<lparr>author_AuthorId = rowid, author_BlogId = blog_BlogId blog,
        author_Name = ''Default Author'', author_Email = Some (''author@'' @ host),
        author_ProfileUrl = None, author_Bio = Some ''Auto-created default author'',
        author_CreatedAt = iso rt k\<rparr>"
    from i have r: "rowid = next_rowid (map author_AuthorId (Authors d))"
      and d': "d' = d\<lparr>Authors := Authors d @ [?new]\<rparr>"
      by (auto simp: insert_author_def Let_def split: if_splits)
    have "author_AuthorId ?new \<notin> set (map author_AuthorId (Authors d))"
      using next_rowid_fresh[of "map author_AuthorId (Authors d)"] r by simp
    from find_key_snoc_fresh[of author_AuthorId ?new, OF this]
    have "select_author d' rowid = Some ?new" by (simp add: select_author_def d')
    with s have b: "author = ?new" by simp
    have "select_author_of_blog d' (blog_BlogId blog) = Some ?new"
      using None by (simp add: select_author_of_blog_def d' find_snoc)
    with b s d' show ?thesis by auto
  qed
  then show "select_author_of_blog d' (blog_BlogId blog) = Some author"
    "select_author d' (author_AuthorId author) \<noteq> None"
    "\<exists>as. d' = d\<lparr>Authors := Authors d @ as\<rparr>"
    by blast+
qed

lemma resolveCategory_result:
  assumes "resolveCategory blog d = (Some (Some category), d')"
  shows "select_category_of_blog d' (blog_BlogId blog) = Some category"
    and "select_category d' (category_CategoryId category) \<noteq> None"
    and "\<exists>cs. d' = d\<lparr>Categories := Categories d @ cs\<rparr>"
proof -
  have "select_category_of_blog d' (blog_BlogId blog) = Some category \<and>
        select_category d' (category_CategoryId category) \<noteq> None \<and>
        (\<exists>cs. d' = d\<lparr>Categories := Categories d @ cs\<rparr>)"
  proof (cases "select_category_of_blog d (blog_BlogId blog)")
    case (Some c)
    with assms have "category = c" "d' = d" by (simp_all add: resolveCategory_def)
    moreover from Some have "select_category d (category_CategoryId c) \<noteq> None"
      unfolding select_category_of_blog_def select_category_def by (rule find_Some_key)
    ultimately show ?thesis using Some same_store[of d] by simp
  next
    case None
    with assms obtain rowid where
      i: "insert_category d (blog_BlogId blog) ''General'' (Some ''general'') = Some (rowid, d')" and
      s: "select_category d' rowid = Some category"
      by (auto simp: resolveCategory_def split: option.splits)
    let ?new = "\<lparr>category_CategoryId = rowid, category_BlogId = blog_BlogId blog,
        category_Name = ''General'', category_Slug = Some ''general''\<rparr>"
    from i have r: "rowid = next_rowid (map category_CategoryId (Categories d))"
      and d': "d' = d\<lparr>Categories := Categories d @ [?new]\<rparr>"
      by (auto simp: insert_category_def Let_def split: if_splits)
    have "category_CategoryId ?new \<notin> set (map category_CategoryId (Categories d))"
      using next_rowid_fresh[of "map category_CategoryId (Categories d)"] r by simp
    from find_key_snoc_fresh[of category_CategoryId ?new, OF this]
    have "select_category d' rowid = Some ?new" by (simp add: select_category_def d')
    with s have b: "category = ?new" by simp
    have "select_category_of_blog d' (blog_BlogId blog) = Some ?new"
      using None by (simp add: select_category_of_blog_def d' find_snoc)
    with b s d' show ?thesis by auto
  qed
  then show "select_category_of_blog d' (blog_BlogId blog) = Some category"
    "select_category d' (category_CategoryId category) \<noteq> None"
    "\<exists>cs. d' = d\<lparr>Categories := Categories d @ cs\<rparr>"
    by blast+
qed

section \<open>The slug of a blog that the workflow creates\<close>

lemma createPosts_other_tables:
  "createPosts rt b a c i k texts cp d = (Some cp', d') \<Longrightarrow>
     Blogs d' = Blogs d \<and> Authors d' = Authors d \<and> Categories d' = Categories d"
  using createPosts_effect[of rt b a c i k texts cp d cp' d'] by auto

text \<open>Claim C3, as the code has it. When the workflow succeeds for a \<open>blogUrl\<close> that no
  blog has as its \<open>Url\<close>, the blog it creates and returns has as its slug the name
  candidate (the host name without its first occurrence of \<open>www.\<close> and without its final
  extension) in lower case, with every single character other than \<open>a-z\<close> and \<open>0-9\<close>
  replaced by a hyphen; a run of such characters becomes as many hyphens.\<close>

theorem auto_blog_slug:
  assumes "handleSimplePost rt ''POST'' (Some body) d = (Some r, d')" and "status r = 200"
    and "blogUrl body = Some url" and "select_blog_by_url d url = None"
  shows "\<exists>host blog author category n posts.
           hostname rt url = Some host \<and>
           r = createSuccessResponse (JSimple blog author category n posts) \<and>
           select_blog_by_url d' url = Some blog \<and>
           blog_Slug blog =
             map (\<lambda>c. if isLower c \<or> isDigit c then c else CHR ''-'')
                 (toLowerCase (stripExt (replaceFirst ''www.'' [] host)))"
proof -
  from simple_success[OF assms(1,2)] obtain url' texts blog k1 d1 author k2 d2 category d3 cp where
    s: "orNull (blogUrl body) = Some url'"
       "resolveBlog rt url' d = (Some (Some blog, k1), d1)"
       "resolveAuthor rt url' blog k1 d1 = (Some (Some author, k2), d2)"
       "resolveCategory blog d2 = (Some (Some category), d3)"
       "createPosts rt blog author category 0 k2 texts [] d3 = (Some cp, d')"
       "r = createSuccessResponse (JSimple blog author category (length cp) cp)"
    by blast
  from s(1) assms(3) have u: "url' = url" by (simp add: orNull_def split: if_splits)
  from resolveBlog_created[OF s(2)[unfolded u] assms(4)] obtain host where
    h: "hostname rt url = Some host" "blog_Slug blog = blogSlug host"
    by blast
  have "Blogs d' = Blogs d1"
    using resolveAuthor_result(3)[OF s(3)] resolveCategory_result(3)[OF s(4)]
      createPosts_other_tables[OF s(5)] by auto
  with resolveBlog_result(1)[OF s(2)[unfolded u]] have "select_blog_by_url d' url = Some blog"
    by (simp add: select_blog_by_url_def)
  with h s(6) show ?thesis
    by (auto simp: blogSlug_def blogName_def)
qed

theorem auto_blog_slug_witness:
  "map_option blog_Slug (select_blog_by_url
      (snd (handleSimplePost sample_runtime ''POST''
         (Some (simple_body ''https://myblog.com'' [''Hello world. More text here.''])) seed_db))
      ''https://myblog.com'') = Some ''myblog''"
proof -
  let ?b = "simple_body ''https://myblog.com'' [''Hello world. More text here.'']"
  let ?run = "handleSimplePost sample_runtime ''POST'' (Some ?b) seed_db"
  have 1: "?run = (Some (the (fst ?run)), snd ?run)" by code_simp
  have 2: "status (the (fst ?run)) = 200" by code_simp
  have 3: "blogUrl ?b = Some ''https://myblog.com''" by (simp add: simple_body_def)
  have 4: "select_blog_by_url seed_db ''https://myblog.com'' = None" by code_simp
  have 5: "hostname sample_runtime ''https://myblog.com'' = Some ''myblog.com''"
    by (simp add: sample_runtime_def)
  have 6: "map (\<lambda>c. if isLower c \<or> isDigit c then c else CHR ''-'')
                 (toLowerCase (stripExt (replaceFirst ''www.'' [] ''myblog.com''))) = ''myblog''"
    by code_simp
  from auto_blog_slug[OF 1 2 3 4] show ?thesis
    unfolding 5 using 6 by auto
qed

text \<open>The claim as it is stated fails: for the host \<open>my--blog.com\<close> the name candidate
  \<open>my--blog\<close> has a run of two hyphens, which the code keeps as two and the claim makes
  one.\<close>

theorem blog_slug_runs_counterexample:
  "map blog_Slug (Blogs (snd (handleSimplePost sample_runtime ''POST''
       (Some (simple_body ''https://my--blog.com'' [''Hello''])) empty_db))) = [''my--blog''] \<and>
   spec_blogSlug ''my--blog.com'' = ''my-blog''"
  by code_simp

section \<open>Running the workflow again\<close>

lemma select_parents_posts:
  "select_blog (d\<lparr>Posts := ps\<rparr>) = select_blog d"
  "select_author (d\<lparr>Posts := ps\<rparr>) = select_author d"
  "select_category (d\<lparr>Posts := ps\<rparr>) = select_category d"
  by (intro ext, simp add: select_blog_def select_author_def select_category_def)+

lemma post_refs_ok_posts: "post_refs_ok (d\<lparr>Posts := ps\<rparr>) = post_refs_ok d"
  by (intro ext) (simp add: post_refs_ok_def select_parents_posts split: option.splits)

lemma createPosts_succeeds:
  assumes "post_refs_ok d (blog_BlogId b) (Some (author_AuthorId a)) (Some (category_CategoryId c))"
  shows "\<exists>cp' d'. createPosts rt b a c i k texts cp d = (Some cp', d')"
  using assms
proof (induction texts arbitrary: i k cp d)
  case Nil
  then show ?case by simp
next
  case (Cons t ts)
  show ?case
  proof (cases "trim t = []")
    case True
    with Cons.IH[OF Cons.prems] show ?thesis by simp
  next
    case False
    let ?row = "simplePostRow rt b a c i k (trim t)"
    have refs: "post_refs_ok d (post_BlogId ?row) (post_AuthorId ?row) (post_CategoryId ?row)"
      using Cons.prems by (simp add: simplePostRow_def Let_def)
    then obtain rowid d1 where ins: "insert_post d ?row = Some (rowid, d1)"
      by (simp add: insert_post_def Let_def)
    from insert_post_effect[OF ins] Cons.prems
    have "post_refs_ok d1 (blog_BlogId b) (Some (author_AuthorId a)) (Some (category_CategoryId c))"
      by (simp add: post_refs_ok_posts)
    from Cons.IH[OF this] ins False show ?thesis by (simp add: Let_def)
  qed
qed

text \<open>A run on a store that has the blog of the URL, an author of that blog and a category
  of that blog.\<close>

lemma simple_rerun:
  assumes "select_blog_by_url d url = Some blog"
    and "select_author_of_blog d (blog_BlogId blog) = Some author"
    and "select_category_of_blog d (blog_BlogId blog) = Some category"
    and "orNull (blogUrl body) = Some url"
  shows "\<exists>res rows. handleSimplePost rt ''POST'' (Some body) d = (Some res, d\<lparr>Posts := Posts d @ rows\<rparr>) \<and>
           map post_Content rows = map (\<lambda>(i, t). Some t) (entriesFrom 0 (textsOf (postTexts body))) \<and>
           (textsOf (postTexts body) \<noteq> [] \<longrightarrow>
              (\<exists>cp. res = createSuccessResponse (JSimple blog author category (length cp) cp)))"
proof (cases "textsOf (postTexts body) = []")
  case True
  then have "handleSimplePost rt ''POST'' (Some body) d =
      (Some (createErrorResponse ''blogUrl (string) and postTexts (array) are required'' 400), d) \<or>
    handleSimplePost rt ''POST'' (Some body) d =
      (Some (createErrorResponse ''At least one post text is required'' 400), d)"
    using assms(4)
    by (cases "postTexts body") (simp_all add: handleSimplePost_def simplePostTry_def)
  with True show ?thesis
    by (intro exI[of _ "[]"] exI[of _ "the (fst (handleSimplePost rt ''POST'' (Some body) d))"]) auto
next
  case False
  then obtain texts where t: "postTexts body = Arr texts" "texts \<noteq> []"
    by (cases "postTexts body") auto
  have rb: "resolveBlog rt url d = (Some (Some blog, 0), d)"
    using assms(1) by (simp add: resolveBlog_def)
  have ra: "resolveAuthor rt url blog 0 d = (Some (Some author, 0), d)"
    using assms(2) by (simp add: resolveAuthor_def)
  have rc: "resolveCategory blog d = (Some (Some category), d)"
    using assms(3) by (simp add: resolveCategory_def)
  have "select_blog d (blog_BlogId blog) \<noteq> None"
    using assms(1) unfolding select_blog_by_url_def select_blog_def by (rule find_Some_key)
  moreover have "select_author d (author_AuthorId author) \<noteq> None"
    using assms(2) unfolding select_author_of_blog_def select_author_def by (rule find_Some_key)
  moreover have "select_category d (category_CategoryId category) \<noteq> None"
    using assms(3) unfolding select_category_of_blog_def select_category_def by (rule find_Some_key)
  ultimately have "post_refs_ok d (blog_BlogId blog) (Some (author_AuthorId author))
      (Some (category_CategoryId category))"
    by (simp add: post_refs_ok_def)
  from createPosts_succeeds[OF this] obtain cp d' where
    cp: "createPosts rt blog author category 0 0 texts [] d = (Some cp, d')" by blast
  from createPosts_effect[OF cp] obtain rows where
    r: "d' = d\<lparr>Posts := Posts d @ rows\<rparr>"
       "map post_Content rows = map (\<lambda>(j, t). Some t) (entriesFrom 0 texts)"
    by blast
  have "handleSimplePost rt ''POST'' (Some body) d =
      (Some (createSuccessResponse (JSimple blog author category (length cp) cp)), d')"
    using assms(4) t rb ra rc cp by (simp add: handleSimplePost_def simplePostTry_def)
  with r t show ?thesis by auto
qed

text \<open>Claim C4. After a run of the workflow that succeeds, a second run with the same
  \<open>blogUrl\<close>, on the store that the first run left, changes nothing but the table of posts:
  no blog, author or category is created, and the blog, the author and the category that it
  returns are those of the first run. To the posts it adds one row for each entry of its
  \<open>postTexts\<close> that is not blank, in the order of the input, with the trimmed entry as the
  content.\<close>

theorem second_run_reuses_parents:
  assumes "handleSimplePost rt1 ''POST'' (Some body1) d0 = (Some r1, d1)" and "status r1 = 200"
    and "blogUrl body2 = blogUrl body1"
  shows "\<exists>res rows blog author category n1 cp1.
           handleSimplePost rt2 ''POST'' (Some body2) d1 = (Some res, d1\<lparr>Posts := Posts d1 @ rows\<rparr>) \<and>
           map post_Content rows =
             map (\<lambda>(i, t). Some t) (entriesFrom 0 (textsOf (postTexts body2))) \<and>
           r1 = createSuccessResponse (JSimple blog author category n1 cp1) \<and>
           (textsOf (postTexts body2) \<noteq> [] \<longrightarrow>
              (\<exists>cp2. res = createSuccessResponse (JSimple blog author category (length cp2) cp2)))"
proof -
  from simple_success[OF assms(1,2)] obtain url texts blog k1 e1 author k2 e2 category e3 cp where
    s: "orNull (blogUrl body1) = Some url"
       "resolveBlog rt1 url d0 = (Some (Some blog, k1), e1)"
       "resolveAuthor rt1 url blog k1 e1 = (Some (Some author, k2), e2)"
       "resolveCategory blog e2 = (Some (Some category), e3)"
       "createPosts rt1 blog author category 0 k2 texts [] e3 = (Some cp, d1)"
       "r1 = createSuccessResponse (JSimple blog author category (length cp) cp)"
    by blast
  note o = createPosts_other_tables[OF s(5)]
  have b: "select_blog_by_url d1 url = Some blog"
    using resolveBlog_result(1)[OF s(2)] resolveAuthor_result(3)[OF s(3)]
      resolveCategory_result(3)[OF s(4)] o
    by (auto simp: select_blog_by_url_def)
  have a: "select_author_of_blog d1 (blog_BlogId blog) = Some author"
    using resolveAuthor_result(1)[OF s(3)] resolveCategory_result(3)[OF s(4)] o
    by (auto simp: select_author_of_blog_def)
  have c: "select_category_of_blog d1 (blog_BlogId blog) = Some category"
    using resolveCategory_result(1)[OF s(4)] o
    by (auto simp: select_category_of_blog_def)
  from s(1) assms(3) have u: "orNull (blogUrl body2) = Some url" by simp
  from simple_rerun[OF b a c u, of rt2] s(6) show ?thesis by blast
qed

theorem second_run_reuses_parents_witness:
  "\<exists>res rows.
     handleSimplePost sample_runtime ''POST''
       (Some (simple_body ''https://myblog.com'' [''Second run.'', '' '']))
       (snd (handleSimplePost sample_runtime ''POST''
          (Some (simple_body ''https://myblog.com'' [''Hello world. More text here.''])) seed_db)) =
     (Some res,
      (snd (handleSimplePost sample_runtime ''POST''
          (Some (simple_body ''https://myblog.com'' [''Hello world. More text here.''])) seed_db))
      \<lparr>Posts := Posts (snd (handleSimplePost sample_runtime ''POST''
          (Some (simple_body ''https://myblog.com'' [''Hello world. More text here.''])) seed_db)) @ rows\<rparr>) \<and>
     map post_Content rows = [Some ''Second run.'']"
proof -
  let ?b1 = "simple_body ''https://myblog.com'' [''Hello world. More text here.'']"
  let ?b2 = "simple_body ''https://myblog.com'' [''Second run.'', '' '']"
  let ?run = "handleSimplePost sample_runtime ''POST'' (Some ?b1) seed_db"
  have 1: "?run = (Some (the (fst ?run)), snd ?run)" by code_simp
  have 2: "status (the (fst ?run)) = 200" by code_simp
  have 3: "blogUrl ?b2 = blogUrl ?b1" by (simp add: simple_body_def)
  have 4: "map (\<lambda>(i, t). Some t) (entriesFrom 0 (textsOf (postTexts ?b2))) = [Some ''Second run.'']"
    by code_simp
  from second_run_reuses_parents[OF 1 2 3, where ?rt2.0 = sample_runtime]
  show ?thesis unfolding 4 by (elim exE conjE) (intro exI conjI, assumption+)
qed

section \<open>Published posts have a date of publication\<close>

lemma post_of_body_stamped:
  assumes "clock_ok rt"
  shows "stamped (post_of_body b blogId title slug (publishedAtOf rt b) createdAt updatedAt)"
proof -
  from assms have "iso rt 1 \<noteq> []" by (simp add: clock_ok_def)
  then show ?thesis
    by (auto simp: stamped_def post_of_body_def publishedAtOf_def orZero_def orNullNum_def orNull_def
        split: option.splits if_splits)
qed

lemma stamped_updates:
  "stamped (p\<lparr>post_PostId := i\<rparr>) = stamped p"
  "stamped (p\<lparr>post_PostId := i, post_CreatedAt := c\<rparr>) = stamped p"
  by (simp_all add: stamped_def)

text \<open>What the creation and the update of a post write as the date of publication of a
  published post that comes without one: the second reading of the clock.\<close>

lemma published_without_date:
  assumes "publishedWithoutDate b" and "clock_ok rt"
  shows "post_PublishedAt (post_of_body b blogId title slug (publishedAtOf rt b) createdAt updatedAt) =
           Some (iso rt 1)"
proof -
  from assms(2) have "iso rt 1 \<noteq> []" by (simp add: clock_ok_def)
  with assms(1) show ?thesis
    by (simp add: publishedWithoutDate_def post_of_body_def publishedAtOf_def orNull_def)
qed

lemma insert_posttags_posts: "Posts (snd (insert_posttags d i ts)) = Posts d"
proof (induction ts arbitrary: d)
  case Nil
  then show ?case by simp
next
  case (Cons t ts)
  show ?case
  proof (cases "insert_posttag d i t")
    case None
    then show ?thesis by simp
  next
    case (Some d1)
    then have "Posts d1 = Posts d" by (auto simp: insert_posttag_def split: if_splits)
    with Some Cons.IH[of d1] show ?thesis by simp
  qed
qed

lemma insert_posttags_postsD: "insert_posttags d i ts = (ok, d2) \<Longrightarrow> Posts d2 = Posts d"
  using insert_posttags_posts[of d i ts] by simp

text \<open>A property of rows that the posts of the store have, and that the row to be written
  has, is one that the posts of the store have after the statement.\<close>

lemma insert_post_rows:
  assumes "list_all Q (Posts d)" and "Q (row\<lparr>post_PostId := rowid\<rparr>)"
    and "insert_post d row = Some (rowid, d1)"
  shows "list_all Q (Posts d1)"
  using assms insert_post_effect[OF assms(3)] by simp

lemma update_post_rows:
  assumes "list_all Q (Posts d)"
    and "\<And>k c. Q (row\<lparr>post_PostId := k, post_CreatedAt := c\<rparr>)"
    and "update_post d i row = Some d1"
  shows "list_all Q (Posts d1)"
proof -
  from assms(3) have "Posts d1 = map (\<lambda>p. if post_PostId p = i
          then row\<lparr>post_PostId := post_PostId p, post_CreatedAt := post_CreatedAt p\<rparr>
          else p) (Posts d)"
    by (auto simp: update_post_def split: if_splits)
  with assms(1,2) show ?thesis
    by (auto simp: list_all_iff)
qed

lemma createPost_rows:
  assumes "list_all Q (Posts d)"
    and "\<And>blogId title slug rowid.
      Q ((post_of_body b blogId title slug (publishedAtOf rt b) (iso rt 0) (orNull (UpdatedAt b)))
           \<lparr>post_PostId := rowid\<rparr>)"
  shows "list_all Q (Posts (snd (handlePosts rt ''POST'' idv (Some b) ps d)))"
proof -
  let ?row = "\<lambda>blogId title slug. post_of_body b blogId title slug (publishedAtOf rt b) (iso rt 0)
      (orNull (UpdatedAt b))"
  have ins: "list_all Q (Posts (snd (case insert_post d (?row blogId title slug) of
        None \<Rightarrow> (None, d)
      | Some (newPostId, d1) \<Rightarrow>
          (case insert_posttags d1 newPostId (case tags b of None \<Rightarrow> [] | Some ts \<Rightarrow> ts) of
             (False, d2) \<Rightarrow> (None, d2)
           | (True, d2) \<Rightarrow>
               (Some (createSuccessResponse
                  (orNullRow JPost (map_option (post_row_of d2) (select_post d2 newPostId)))), d2)))))"
    for blogId title slug
  proof (cases "insert_post d (?row blogId title slug)")
    case None
    with assms(1) show ?thesis by simp
  next
    case (Some x)
    obtain newPostId d1 where x: "x = (newPostId, d1)" by (cases x)
    from insert_post_rows[OF assms(1) assms(2) Some[unfolded x]]
    have "list_all Q (Posts d1)" .
    then show ?thesis using Some x
      by (auto split: prod.splits bool.splits dest!: insert_posttags_postsD)
  qed
  show ?thesis
  proof (cases "\<exists>t s bl. orNull (Title b) = Some t \<and> orNull (Slug b) = Some s \<and>
      orNullNum (BlogId b) = Some bl")
    case True
    then obtain t s bl where "orNull (Title b) = Some t" "orNull (Slug b) = Some s"
      "orNullNum (BlogId b) = Some bl" by blast
    then show ?thesis using assms(1)
      by (simp add: handlePosts_def ins)
  next
    case False
    then have "handlePosts rt ''POST'' idv (Some b) ps d =
        (Some (createErrorResponse ''Title, Slug, and BlogId are required'' 400), d)"
      by (cases "orNull (Title b)"; cases "orNull (Slug b)"; cases "orNullNum (BlogId b)")
         (simp_all add: handlePosts_def)
    with assms(1) show ?thesis by simp
  qed
qed

lemma updatePost_rows:
  assumes "list_all Q (Posts d)"
    and "\<And>blogId title slug k c.
      Q ((post_of_body b blogId title slug (publishedAtOf rt b) [] (Some (iso rt 0)))
           \<lparr>post_PostId := k, post_CreatedAt := c\<rparr>)"
  shows "list_all Q (Posts (snd (handlePosts rt ''PUT'' idv (Some b) ps d)))"
proof -
  let ?row = "\<lambda>blogId title slug. post_of_body b blogId title slug (publishedAtOf rt b) []
      (Some (iso rt 0))"
  have upd: "list_all Q (Posts (snd (case writeWhere d (keyOf idv)
                 (\<lambda>i. update_post d i (?row blogId title slug)) of
        None \<Rightarrow> (None, d)
      | Some d1 \<Rightarrow>
          (case (case tags b of
                   None \<Rightarrow> (True, d1)
                 | Some ts \<Rightarrow>
                     (case writeWhere d1 (keyOf idv) (delete_posttags_of d1) of
                        None \<Rightarrow> (False, d1)
                      | Some d2 \<Rightarrow>
                          (case keyOf idv of
                             None \<Rightarrow> (ts = [], d2)
                           | Some i \<Rightarrow> insert_posttags d2 i ts))) of
             (False, d3) \<Rightarrow> (None, d3)
           | (True, d3) \<Rightarrow>
               (Some (createSuccessResponse
                  (orNullRow JPost (map_option (post_row_of d3)
                     (selectWhere (keyOf idv) (select_post d3))))), d3)))))"
    for blogId title slug
  proof (cases "keyOf idv")
    case None
    with assms(1) show ?thesis
      by (auto split: option.splits prod.splits bool.splits)
  next
    case (Some i)
    note key = Some
    show ?thesis
    proof (cases "update_post d i (?row blogId title slug)")
      case None
      with assms(1) key show ?thesis by simp
    next
      case (Some d1)
      from update_post_rows[OF assms(1) assms(2) Some]
      have "list_all Q (Posts d1)" .
      then show ?thesis using Some key
        by (auto simp: delete_posttags_of_def split: prod.splits bool.splits option.splits
            dest!: insert_posttags_postsD)
    qed
  qed
  show ?thesis
  proof (cases "\<exists>t s bl. orNull (Title b) = Some t \<and> orNull (Slug b) = Some s \<and>
      orNullNum (BlogId b) = Some bl")
    case True
    then obtain t s bl where "orNull (Title b) = Some t" "orNull (Slug b) = Some s"
      "orNullNum (BlogId b) = Some bl" by blast
    then show ?thesis using assms(1)
      by (simp add: handlePosts_def upd)
  next
    case False
    then have "handlePosts rt ''PUT'' idv (Some b) ps d =
        (Some (createErrorResponse ''Title, Slug, and BlogId are required'' 400), d) \<or>
      handlePosts rt ''PUT'' idv (Some b) ps d =
        (Some (createErrorResponse ''Post ID is required for update'' 400), d)"
      by (cases "orNull (Title b)"; cases "orNull (Slug b)"; cases "orNullNum (BlogId b)")
         (simp_all add: handlePosts_def)
    with assms(1) show ?thesis by auto
  qed
qed

lemma createPost_stamped:
  assumes "clock_ok rt" and "list_all stamped (Posts d)"
  shows "list_all stamped (Posts (snd (handlePosts rt ''POST'' idv body ps d)))"
proof (cases body)
  case None
  with assms show ?thesis by (simp add: handlePosts_def)
next
  case (Some b)
  show ?thesis
    unfolding Some
    by (rule createPost_rows[OF assms(2)]) (simp add: stamped_updates post_of_body_stamped[OF assms(1)])
qed

lemma updatePost_stamped:
  assumes "clock_ok rt" and "list_all stamped (Posts d)"
  shows "list_all stamped (Posts (snd (handlePosts rt ''PUT'' idv body ps d)))"
proof (cases body)
  case None
  with assms show ?thesis by (simp add: handlePosts_def)
next
  case (Some b)
  show ?thesis
    unfolding Some
    by (rule updatePost_rows[OF assms(2)]) (simp add: stamped_updates post_of_body_stamped[OF assms(1)])
qed

text \<open>The rows that the creation and the update of a post write for a published post
  that comes without a date of publication carry the reading of the clock.\<close>

lemma createPost_written:
  assumes "clock_ok rt" and "publishedWithoutDate b"
  shows "\<forall>p \<in> set (written d (snd (handlePosts rt ''POST'' idv (Some b) ps d))).
           post_PublishedAt p = Some (iso rt 1)"
proof -
  have "list_all (\<lambda>p. p \<in> set (Posts d) \<or> post_PublishedAt p = Some (iso rt 1))
          (Posts (snd (handlePosts rt ''POST'' idv (Some b) ps d)))"
    by (rule createPost_rows)
       (simp_all add: list_all_iff published_without_date[OF assms(2,1)])
  then show ?thesis by (auto simp: written_def list_all_iff)
qed

lemma updatePost_written:
  assumes "clock_ok rt" and "publishedWithoutDate b"
  shows "\<forall>p \<in> set (written d (snd (handlePosts rt ''PUT'' idv (Some b) ps d))).
           post_PublishedAt p = Some (iso rt 1)"
proof -
  have "list_all (\<lambda>p. p \<in> set (Posts d) \<or> post_PublishedAt p = Some (iso rt 1))
          (Posts (snd (handlePosts rt ''PUT'' idv (Some b) ps d)))"
    by (rule updatePost_rows)
       (simp_all add: list_all_iff published_without_date[OF assms(2,1)])
  then show ?thesis by (auto simp: written_def list_all_iff)
qed

text \<open>The rows that the loop of the workflow writes, whether it comes to its end or not:
  each is published, and its date of publication is the reading of the clock of its
  round.\<close>

lemma createPosts_clock:
  "createPosts rt b a c i k texts cp d = (x, d') \<Longrightarrow>
     \<exists>rows. Posts d' = Posts d @ rows \<and>
       (\<forall>j<length rows. post_IsPublished (rows ! j) = 1 \<and>
          post_PublishedAt (rows ! j) = Some (iso rt (k + j)))"
proof (induction texts arbitrary: i k cp d)
  case Nil
  then show ?case by simp
next
  case (Cons t ts)
  show ?case
  proof (cases "trim t = []")
    case True
    with Cons.prems have "createPosts rt b a c (i + 1) k ts cp d = (x, d')" by simp
    from Cons.IH[OF this] show ?thesis .
  next
    case False
    let ?row = "simplePostRow rt b a c i k (trim t)"
    show ?thesis
    proof (cases "insert_post d ?row")
      case None
      with False Cons.prems have "d' = d" by (simp add: Let_def)
      then show ?thesis by simp
    next
      case (Some y)
      obtain rowid d1 where y: "y = (rowid, d1)" by (cases y)
      from Some y False Cons.prems have
        rest: "createPosts rt b a c (i + 1) (k + 1) ts
                 (cp @ [map_option (post_row_of d1) (select_post d1 rowid)]) d1 = (x, d')"
        by (simp add: Let_def)
      from insert_post_effect[OF Some[unfolded y]]
      have d1: "Posts d1 = Posts d @ [?row\<lparr>post_PostId := rowid\<rparr>]" by simp
      from Cons.IH[OF rest] obtain rows where
        r: "Posts d' = Posts d1 @ rows"
           "\<forall>j<length rows. post_IsPublished (rows ! j) = 1 \<and>
              post_PublishedAt (rows ! j) = Some (iso rt (k + 1 + j))"
        by blast
      have row: "post_IsPublished (?row\<lparr>post_PostId := rowid\<rparr>) = 1"
        "post_PublishedAt (?row\<lparr>post_PostId := rowid\<rparr>) = Some (iso rt k)"
        by (simp_all add: simplePostRow_def Let_def)
      have "\<forall>j<length (?row\<lparr>post_PostId := rowid\<rparr> # rows).
          post_IsPublished ((?row\<lparr>post_PostId := rowid\<rparr> # rows) ! j) = 1 \<and>
          post_PublishedAt ((?row\<lparr>post_PostId := rowid\<rparr> # rows) ! j) = Some (iso rt (k + j))"
      proof (intro allI impI)
        fix j
        assume j: "j < length (?row\<lparr>post_PostId := rowid\<rparr> # rows)"
        show "post_IsPublished ((?row\<lparr>post_PostId := rowid\<rparr> # rows) ! j) = 1 \<and>
          post_PublishedAt ((?row\<lparr>post_PostId := rowid\<rparr> # rows) ! j) = Some (iso rt (k + j))"
        proof (cases j)
          case 0
          with row show ?thesis by simp
        next
          case (Suc m)
          with j have "m < length rows" by simp
          with r(2) Suc show ?thesis by simp
        qed
      qed
      moreover have "Posts d' = Posts d @ (?row\<lparr>post_PostId := rowid\<rparr> # rows)"
        using r(1) d1 by simp
      ultimately show ?thesis by blast
    qed
  qed
qed

lemma ingest_clock:
  "\<exists>rows k0. Posts (snd (handleSimplePost rt ''POST'' body d)) = Posts d @ rows \<and>
     (\<forall>j<length rows. post_IsPublished (rows ! j) = 1 \<and>
        post_PublishedAt (rows ! j) = Some (iso rt (k0 + j)))"
proof -
  define G where "G = (\<lambda>d' :: db. \<exists>rows k0. Posts d' = Posts d @ rows \<and>
     (\<forall>j<length rows. post_IsPublished (rows ! j) = 1 \<and>
        post_PublishedAt (rows ! j) = Some (iso rt (k0 + j))))"
  have base: "G d'" if "Posts d' = Posts d" for d'
    unfolding G_def using that by (intro exI[of _ "[]"]) simp
  have step: "G d4" if "createPosts rt b a c 0 k texts [] d3 = (x, d4)" "Posts d3 = Posts d"
    for b a c k texts d3 x d4
    unfolding G_def using createPosts_clock[OF that(1)] that(2) by auto
  have "G (snd (simplePostTry rt body d))"
  proof (cases body)
    case None
    then show ?thesis by (simp add: simplePostTry_def base)
  next
    case (Some b)
    show ?thesis
    proof (cases "\<exists>url texts. orNull (blogUrl b) = Some url \<and> postTexts b = Arr texts \<and> texts \<noteq> []")
      case False
      then have "snd (simplePostTry rt body d) = d"
        by (auto simp: simplePostTry_def Some split: option.splits postTexts_field.splits)
      then show ?thesis by (simp add: base)
    next
      case True
      then obtain url texts where
        u: "orNull (blogUrl b) = Some url" "postTexts b = Arr texts" "texts \<noteq> []" by blast
      obtain x1 d1 where r1: "resolveBlog rt url d = (x1, d1)" by (cases "resolveBlog rt url d")
      note p1 = resolveBlog_posts[OF r1]
      show ?thesis
      proof (cases "\<exists>blog k1. x1 = Some (Some blog, k1)")
        case False
        then have "snd (simplePostTry rt body d) = d1"
          using u r1 by (auto simp: simplePostTry_def Some split: option.splits prod.splits)
        with p1 show ?thesis by (simp add: base)
      next
        case True
        then obtain blog k1 where x1: "x1 = Some (Some blog, k1)" by blast
        obtain x2 d2 where r2: "resolveAuthor rt url blog k1 d1 = (x2, d2)"
          by (cases "resolveAuthor rt url blog k1 d1")
        note p2 = resolveAuthor_posts[OF r2]
        show ?thesis
        proof (cases "\<exists>author k2. x2 = Some (Some author, k2)")
          case False
          then have "snd (simplePostTry rt body d) = d2"
            using u r1 x1 r2 by (auto simp: simplePostTry_def Some split: option.splits prod.splits)
          with p1 p2 show ?thesis by (simp add: base)
        next
          case True
          then obtain author k2 where x2: "x2 = Some (Some author, k2)" by blast
          obtain x3 d3 where r3: "resolveCategory blog d2 = (x3, d3)"
            by (cases "resolveCategory blog d2")
          note p3 = resolveCategory_posts[OF r3]
          show ?thesis
          proof (cases "\<exists>category. x3 = Some (Some category)")
            case False
            then have "snd (simplePostTry rt body d) = d3"
              using u r1 x1 r2 x2 r3
              by (auto simp: simplePostTry_def Some split: option.splits prod.splits)
            with p1 p2 p3 show ?thesis by (simp add: base)
          next
            case True
            then obtain category where x3: "x3 = Some (Some category)" by blast
            obtain x4 d4 where r4: "createPosts rt blog author category 0 k2 texts [] d3 = (x4, d4)"
              by (cases "createPosts rt blog author category 0 k2 texts [] d3")
            have "snd (simplePostTry rt body d) = d4"
              using u r1 x1 r2 x2 r3 x3 r4
              by (auto simp: simplePostTry_def Some split: option.splits prod.splits)
            moreover have "G d4" using step[OF r4] p1 p2 p3 by simp
            ultimately show ?thesis by simp
          qed
        qed
      qed
    qed
  qed
  moreover have "snd (handleSimplePost rt ''POST'' body d) = snd (simplePostTry rt body d)"
    by (auto simp: handleSimplePost_def split: prod.splits option.splits)
  ultimately show ?thesis by (simp add: G_def)
qed

lemma createPosts_stamped:
  "list_all stamped (Posts d) \<Longrightarrow>
   list_all stamped (Posts (snd (createPosts rt b a c i k texts cp d)))"
proof (induction texts arbitrary: i k cp d)
  case Nil
  then show ?case by simp
next
  case (Cons t ts)
  show ?case
  proof (cases "trim t = []")
    case True
    with Cons.IH[OF Cons.prems] show ?thesis by simp
  next
    case False
    let ?row = "simplePostRow rt b a c i k (trim t)"
    have st: "stamped (?row\<lparr>post_PostId := rowid\<rparr>)" for rowid
      by (simp add: stamped_def simplePostRow_def Let_def)
    show ?thesis
    proof (cases "insert_post d ?row")
      case None
      with False Cons.prems show ?thesis by (simp add: Let_def)
    next
      case (Some x)
      obtain rowid d1 where x: "x = (rowid, d1)" by (cases x)
      from insert_post_rows[OF Cons.prems st Some[unfolded x]]
      have "list_all stamped (Posts d1)" .
      from Cons.IH[OF this] Some x False show ?thesis by (simp add: Let_def)
    qed
  qed
qed

lemma createPosts_stampedD:
  assumes "createPosts rt b a c i k texts cp d3 = (x, d4)" and "list_all stamped (Posts d3)"
  shows "list_all stamped (Posts d4)"
  using createPosts_stamped[OF assms(2), of rt b a c i k texts cp] assms(1) by simp

lemma ingest_stamped:
  assumes "list_all stamped (Posts d)"
  shows "list_all stamped (Posts (snd (handleSimplePost rt ''POST'' body d)))"
proof -
  have "list_all stamped (Posts (snd (simplePostTry rt body d)))"
  proof (cases body)
    case None
    with assms show ?thesis by (simp add: simplePostTry_def)
  next
    case (Some b)
    show ?thesis
      unfolding simplePostTry_def Some
      using assms
      by (auto split: option.splits prod.splits postTexts_field.splits
          dest!: resolveBlog_posts resolveAuthor_posts resolveCategory_posts
          dest: createPosts_stampedD)
  qed
  then show ?thesis
    by (auto simp: handleSimplePost_def split: prod.splits option.splits)
qed

lemma reachable_stamped:
  assumes "reachable d0 d" and "list_all stamped (Posts d0)"
  shows "list_all stamped (Posts d)"
  using assms
proof (induction rule: reachable.induct)
  case start
  then show ?case .
next
  case (create d rt idv body ps)
  then show ?case by (simp add: createPost_stamped)
next
  case (update d rt idv body ps)
  then show ?case by (simp add: updatePost_stamped)
next
  case (ingest d rt body)
  then show ?case by (simp add: ingest_stamped)
qed

text \<open>Claim C7. In every store reached from a store \<open>d0\<close> by creations of posts, updates of
  posts and runs of the simple-post workflow, whatever their requests and outcomes, each
  post with \<open>IsPublished = 1\<close> has a \<open>PublishedAt\<close> that is not null, provided that the posts
  of \<open>d0\<close> have (as those of the empty store do) and that the clock of a creation or an
  update prints a date that is not empty. And each of the three operations, run in such a
  store, writes the current time as \<open>PublishedAt\<close>: the rows that the creation and the
  update of a post write for a body with a true \<open>IsPublished\<close> and no \<open>PublishedAt\<close> hold
  the reading of the clock that the handler takes for it (the second of the request), and
  the rows that the workflow adds are published and hold, one after the other, the
  readings of the clock of their rounds.\<close>

theorem published_has_timestamp:
  assumes "reachable d0 d"
    and "\<forall>p \<in> set (Posts d0). post_IsPublished p = 1 \<longrightarrow> post_PublishedAt p \<noteq> None"
  shows "(\<forall>p \<in> set (Posts d). post_IsPublished p = 1 \<longrightarrow> post_PublishedAt p \<noteq> None) \<and>
    (clock_ok rt \<longrightarrow> publishedWithoutDate b \<longrightarrow>
       (\<forall>p \<in> set (written d (snd (handlePosts rt ''POST'' idv (Some b) ps d))).
          post_PublishedAt p = Some (iso rt 1)) \<and>
       (\<forall>p \<in> set (written d (snd (handlePosts rt ''PUT'' idv (Some b) ps d))).
          post_PublishedAt p = Some (iso rt 1))) \<and>
    (\<exists>rows k0. Posts (snd (handleSimplePost rt ''POST'' body d)) = Posts d @ rows \<and>
       (\<forall>j<length rows. post_IsPublished (rows ! j) = 1 \<and>
          post_PublishedAt (rows ! j) = Some (iso rt (k0 + j))))"
proof -
  from assms(2) have "list_all stamped (Posts d0)"
    by (auto simp: list_all_iff stamped_def)
  from reachable_stamped[OF assms(1) this]
  have 1: "\<forall>p \<in> set (Posts d). post_IsPublished p = 1 \<longrightarrow> post_PublishedAt p \<noteq> None"
    by (auto simp: list_all_iff stamped_def)
  have 2: "clock_ok rt \<longrightarrow> publishedWithoutDate b \<longrightarrow>
       (\<forall>p \<in> set (written d (snd (handlePosts rt ''POST'' idv (Some b) ps d))).
          post_PublishedAt p = Some (iso rt 1)) \<and>
       (\<forall>p \<in> set (written d (snd (handlePosts rt ''PUT'' idv (Some b) ps d))).
          post_PublishedAt p = Some (iso rt 1))"
    using createPost_written updatePost_written by blast
  from 1 2 ingest_clock show ?thesis by (intro conjI)
qed

theorem published_has_timestamp_witness:
  "reachable empty_db
     (snd (handlePosts ticking_runtime ''POST'' None
        (Some (empty_body\<lparr>BlogId := Some 1, Title := Some ''News'', Slug := Some ''news'',
                          IsPublished := Some 1\<rparr>)) []
        (snd (handleSimplePost ticking_runtime ''POST''
           (Some (simple_body ''https://myblog.com'' [''Hello world. More text here.'', ''Second post'']))
           empty_db)))) \<and>
   post_IsPublished (last (Posts
     (snd (handlePosts ticking_runtime ''POST'' None
        (Some (empty_body\<lparr>BlogId := Some 1, Title := Some ''News'', Slug := Some ''news'',
                          IsPublished := Some 1\<rparr>)) []
        (snd (handleSimplePost ticking_runtime ''POST''
           (Some (simple_body ''https://myblog.com'' [''Hello world. More text here.'', ''Second post'']))
           empty_db)))))) = 1 \<and>
   post_PublishedAt (last (Posts
     (snd (handlePosts ticking_runtime ''POST'' None
        (Some (empty_body\<lparr>BlogId := Some 1, Title := Some ''News'', Slug := Some ''news'',
                          IsPublished := Some 1\<rparr>)) []
        (snd (handleSimplePost ticking_runtime ''POST''
           (Some (simple_body ''https://myblog.com'' [''Hello world. More text here.'', ''Second post'']))
           empty_db)))))) \<noteq> None \<and>
   post_PublishedAt (last (Posts
     (snd (handlePosts ticking_runtime ''POST'' None
        (Some (empty_body\<lparr>BlogId := Some 1, Title := Some ''News'', Slug := Some ''news'',
                          IsPublished := Some 1\<rparr>)) []
        (snd (handleSimplePost ticking_runtime ''POST''
           (Some (simple_body ''https://myblog.com'' [''Hello world. More text here.'', ''Second post'']))
           empty_db)))))) = Some ''2024-05-01T10:00:01.000Z'' \<and>
   post_PublishedAt (hd (Posts
     (snd (handlePosts ticking_runtime ''PUT'' (Some (parseInt ''1''))
        (Some (empty_body\<lparr>BlogId := Some 1, Title := Some ''News'', Slug := Some ''news'',
                          IsPublished := Some 1\<rparr>)) []
        (snd (handleSimplePost ticking_runtime ''POST''
           (Some (simple_body ''https://myblog.com'' [''Hello world. More text here.'', ''Second post'']))
           empty_db)))))) = Some ''2024-05-01T10:00:01.000Z'' \<and>
   (\<exists>k0. map post_PublishedAt (Posts
        (snd (handleSimplePost ticking_runtime ''POST''
           (Some (simple_body ''https://myblog.com'' [''Hello world. More text here.'', ''Second post'']))
           empty_db))) = [Some (iso ticking_runtime k0), Some (iso ticking_runtime (k0 + 1))]) \<and>
   map post_PublishedAt (Posts
        (snd (handleSimplePost ticking_runtime ''POST''
           (Some (simple_body ''https://myblog.com'' [''Hello world. More text here.'', ''Second post'']))
           empty_db))) = [Some ''2024-05-01T10:00:02.000Z'', Some ''2024-05-01T10:00:03.000Z'']"
proof -
  let ?b = "empty_body\<lparr>BlogId := Some 1, Title := Some ''News'', Slug := Some ''news'',
                        IsPublished := Some 1\<rparr>"
  let ?body = "Some (simple_body ''https://myblog.com'' [''Hello world. More text here.'', ''Second post''])"
  let ?d1 = "snd (handleSimplePost ticking_runtime ''POST'' ?body empty_db)"
  let ?X = "snd (handlePosts ticking_runtime ''POST'' None (Some ?b) [] ?d1)"
  let ?Y = "snd (handlePosts ticking_runtime ''PUT'' (Some (parseInt ''1'')) (Some ?b) [] ?d1)"
  have c: "clock_ok ticking_runtime" by (simp add: clock_ok_def ticking_runtime_def)
  have r0: "reachable empty_db empty_db" by (rule reachable.start)
  have r1: "reachable empty_db ?d1" by (intro reachable.ingest reachable.start)
  have rX: "reachable empty_db ?X" by (intro reachable.create r1 c)
  have e: "\<forall>p \<in> set (Posts empty_db). post_IsPublished p = 1 \<longrightarrow> post_PublishedAt p \<noteq> None"
    by (simp add: empty_db_def)
  have w: "publishedWithoutDate ?b" by code_simp
  have t1: "iso ticking_runtime 1 = ''2024-05-01T10:00:01.000Z''" by code_simp
  have m: "last (Posts ?X) \<in> set (Posts ?X)" by code_simp
  have p: "post_IsPublished (last (Posts ?X)) = 1" by code_simp
  have mX: "last (Posts ?X) \<in> set (written ?d1 ?X)" by code_simp
  have mY: "hd (Posts ?Y) \<in> set (written ?d1 ?Y)" by code_simp
  have l: "length (Posts ?d1) = 2" by code_simp
  have v: "map post_PublishedAt (Posts ?d1) =
      [Some ''2024-05-01T10:00:02.000Z'', Some ''2024-05-01T10:00:03.000Z'']" by code_simp
  note at_X = published_has_timestamp[OF rX e]
  note at_d1 = published_has_timestamp[OF r1 e, where rt = ticking_runtime and b = "?b"]
  note at_d0 = published_has_timestamp[OF r0 e, where rt = ticking_runtime and body = "?body"]
  have 1: "post_PublishedAt (last (Posts ?X)) \<noteq> None"
    using at_X[THEN conjunct1, rule_format, OF m p] .
  from at_d1[where idv = None and ps = "[]", THEN conjunct2, THEN conjunct1, rule_format, OF c w,
      THEN conjunct1, rule_format, OF mX]
  have 2: "post_PublishedAt (last (Posts ?X)) = Some ''2024-05-01T10:00:01.000Z''"
    unfolding t1 .
  from at_d1[where idv = "Some (parseInt ''1'')" and ps = "[]", THEN conjunct2, THEN conjunct1,
      rule_format, OF c w, THEN conjunct2, rule_format, OF mY]
  have 3: "post_PublishedAt (hd (Posts ?Y)) = Some ''2024-05-01T10:00:01.000Z''"
    unfolding t1 .
  from at_d0[THEN conjunct2, THEN conjunct2] obtain rows k0 where
    rows: "Posts ?d1 = Posts empty_db @ rows"
      "\<forall>j<length rows. post_IsPublished (rows ! j) = 1 \<and>
          post_PublishedAt (rows ! j) = Some (iso ticking_runtime (k0 + j))"
    by blast
  from rows(1) have eq: "rows = Posts ?d1" by (simp add: empty_db_def)
  with l have len: "length rows = 2" by simp
  then obtain x y where xy: "rows = [x, y]"
    by (cases rows; cases "tl rows"; cases "tl (tl rows)") auto
  from rows(2)[rule_format, of 0] rows(2)[rule_format, of 1] xy
  have "map post_PublishedAt rows = [Some (iso ticking_runtime k0), Some (iso ticking_runtime (k0 + 1))]"
    by simp
  then have 4: "\<exists>k0. map post_PublishedAt (Posts ?d1) =
      [Some (iso ticking_runtime k0), Some (iso ticking_runtime (k0 + 1))]"
    unfolding eq by (rule exI)
  from rX p 1 2 3 4 v show ?thesis by (intro conjI)
qed

end
